theory Spec2Isabelle
  imports Complex_Main
begin

section \<open>Values of the host language\<close>

text \<open>
  The server is TypeScript on Node. Request bodies and the \<open>jsonb\<close> columns carry JSON
  values. A JSON number is carried as the real number it denotes. Identifiers, counters
  and quantities are integral and have type \<open>int\<close>: integer arithmetic on JavaScript
  numbers is exact below \<open>2^53\<close>, and no bound is modelled. Prices and totals are only
  stored and returned. The one product of two numbers that the handlers compute
  (\<open>amount * 100\<close> in the payment route) is computed in binary64, with its rounding.
\<close>

datatype json =
    JNull
  | JBool bool
  | JNum real
  | JStr string
  | JArr "json list"
  | JObj "(string \<times> json) list"

text \<open>An optional, nullable property of an object: the key is absent, or holds
  \<open>null\<close>, or holds a value.\<close>

datatype 'a optional = Absent | Null | Present 'a

text \<open>\<open>x || null\<close> on a string that may be absent or null (\<open>None\<close>): the empty
  string is falsy.\<close>

definition or_null :: "string option \<Rightarrow> string option" where
  "or_null x = (case x of None \<Rightarrow> None | Some s \<Rightarrow> (if s = [] then None else Some s))"

text \<open>\<open>x || false\<close> on a boolean that may be absent or null.\<close>

definition or_false :: "bool option \<Rightarrow> bool" where
  "or_false x = (case x of None \<Rightarrow> False | Some b \<Rightarrow> b)"

text \<open>\<open>x || 1\<close> on a number that may be absent: zero is falsy.\<close>

definition or_one :: "int option \<Rightarrow> int" where
  "or_one x = (case x of None \<Rightarrow> 1 | Some q \<Rightarrow> (if q = 0 then 1 else q))"

subsection \<open>The built-in \<open>Map\<close>\<close>

text \<open>
  A JavaScript \<open>Map\<close> iterates in insertion order; \<open>set\<close> on a present key replaces the
  value in place, on a new key it appends; \<open>delete\<close> reports whether the key was there.
\<close>

type_synonym ('k, 'v) js_map = "('k \<times> 'v) list"

definition map_get :: "('k, 'v) js_map \<Rightarrow> 'k \<Rightarrow> 'v option" where
  "map_get m k = map_of m k"

fun map_set :: "('k, 'v) js_map \<Rightarrow> 'k \<Rightarrow> 'v \<Rightarrow> ('k, 'v) js_map" where
  "map_set [] k v = [(k, v)]"
| "map_set ((k', v') # m) k v =
     (if k' = k then (k, v) # m else (k', v') # map_set m k v)"

definition map_delete :: "('k, 'v) js_map \<Rightarrow> 'k \<Rightarrow> bool \<times> ('k, 'v) js_map" where
  "map_delete m k = (map_of m k \<noteq> None, filter (\<lambda>p. fst p \<noteq> k) m)"

definition map_values :: "('k, 'v) js_map \<Rightarrow> 'v list" where
  "map_values m = map snd m"

section \<open>The schema (shared/schema.ts)\<close>

record User =
  u_id :: int
  u_username :: string
  u_password :: string
  u_name :: "string option"
  u_email :: "string option"
  u_isAdmin :: "bool option"

record InsertUser =
  iu_username :: string
  iu_password :: string
  iu_name :: "string option"
  iu_email :: "string option"
  iu_isAdmin :: "bool option"

record MenuItem =
  m_id :: int
  m_name :: string
  m_description :: string
  m_price :: real
  m_imageUrl :: "string option"
  m_category :: string
  m_rating :: "real option"
  m_reviewCount :: "int option"
  m_isPopular :: "bool option"
  m_isSeasonal :: "bool option"
  m_isCombo :: "bool option"
  m_dietaryPreferences :: "json option"
  m_nutritionalInfo :: "json option"
  m_availableAddons :: "json option"
  m_comboItems :: "json option"
  m_discountPercentage :: "real option"
  m_createdAt :: "int option"

record InsertMenuItem =
  im_name :: string
  im_description :: string
  im_price :: real
  im_imageUrl :: "string optional"
  im_category :: string
  im_isPopular :: "bool optional"

record CartItem =
  c_id :: int
  c_userId :: int
  c_menuItemId :: int
  c_quantity :: int
  c_selectedAddons :: "json option"
  c_specialInstructions :: "string option"

record InsertCartItem =
  ic_userId :: int
  ic_menuItemId :: int
  ic_quantity :: "int option"

record Order =
  o_id :: int
  o_userId :: int
  o_items :: json
  o_status :: string
  o_total :: real
  o_createdAt :: "int option"
  o_address :: "string option"
  o_paymentId :: "string option"

record InsertOrder =
  io_userId :: int
  io_items :: json
  io_total :: real
  io_address :: "string option"
  io_paymentId :: "string option"

text \<open>\<open>CartItemWithDetails\<close>: the line and the menu item found for it (the source asserts
  it is there with \<open>menuItem!\<close>, which checks nothing at run time).\<close>

type_synonym CartItemWithDetails = "CartItem \<times> MenuItem option"

text \<open>One entry of \<open>OrderWithItems.items\<close>: the menu item found and the \<open>quantity\<close>
  property as it was stored.\<close>

type_synonym OrderItemDetails = "MenuItem option \<times> json option"

type_synonym OrderWithItems = "Order \<times> OrderItemDetails list"


section \<open>The in-memory store (server/storage.ts, class MemStorage)\<close>

record MemStorage =
  users :: "(int, User) js_map"
  menuItems :: "(int, MenuItem) js_map"
  cartItems :: "(int, CartItem) js_map"
  orders :: "(int, Order) js_map"
  userIdCounter :: int
  menuItemIdCounter :: int
  cartItemIdCounter :: int
  orderIdCounter :: int

text \<open>The field initialisers of the constructor. Its seeding then goes through
  \<open>createUser\<close>, \<open>createMenuItem\<close> and \<open>menuItems.set\<close> on an existing item.\<close>

definition MemStorage_new :: MemStorage where
  "MemStorage_new = \<lparr> users = [], menuItems = [], cartItems = [], orders = [],
     userIdCounter = 1, menuItemIdCounter = 1, cartItemIdCounter = 1, orderIdCounter = 1 \<rparr>"

subsection \<open>Users\<close>

definition getUser :: "MemStorage \<Rightarrow> int \<Rightarrow> User option" where
  "getUser s i = map_get (users s) i"

definition createUser :: "MemStorage \<Rightarrow> InsertUser \<Rightarrow> User \<times> MemStorage" where
  "createUser s insertUser =
     (let i = userIdCounter s;
          user = \<lparr> u_id = i,
                   u_username = iu_username insertUser,
                   u_password = iu_password insertUser,
                   u_name = or_null (iu_name insertUser),
                   u_email = or_null (iu_email insertUser),
                   u_isAdmin = Some (or_false (iu_isAdmin insertUser)) \<rparr>
      in (user, s\<lparr> userIdCounter := i + 1, users := map_set (users s) i user \<rparr>))"

subsection \<open>Menu items\<close>

definition getAllMenuItems :: "MemStorage \<Rightarrow> MenuItem list" where
  "getAllMenuItems s = map_values (menuItems s)"

definition getMenuItemById :: "MemStorage \<Rightarrow> int \<Rightarrow> MenuItem option" where
  "getMenuItemById s i = map_get (menuItems s) i"

definition present_or_null :: "'a optional \<Rightarrow> 'a option" where
  "present_or_null x = (case x of Present v \<Rightarrow> Some v | _ \<Rightarrow> None)"

definition createMenuItem :: "MemStorage \<Rightarrow> int \<Rightarrow> InsertMenuItem \<Rightarrow> MenuItem \<times> MemStorage" where
  "createMenuItem s now insertMenuItem =
     (let i = menuItemIdCounter s;
          menuItem = \<lparr> m_id = i,
                       m_name = im_name insertMenuItem,
                       m_description = im_description insertMenuItem,
                       m_price = im_price insertMenuItem,
                       m_imageUrl = or_null (present_or_null (im_imageUrl insertMenuItem)),
                       m_category = im_category insertMenuItem,
                       m_rating = Some 0,
                       m_reviewCount = Some 0,
                       m_isPopular = Some (or_false (present_or_null (im_isPopular insertMenuItem))),
                       m_isSeasonal = Some False,
                       m_isCombo = Some False,
                       m_dietaryPreferences = None,
                       m_nutritionalInfo = None,
                       m_availableAddons = None,
                       m_comboItems = None,
                       m_discountPercentage = Some 0,
                       m_createdAt = Some now \<rparr>
      in (menuItem, s\<lparr> menuItemIdCounter := i + 1, menuItems := map_set (menuItems s) i menuItem \<rparr>))"

text \<open>The object spread \<open>{...existing, ...insert}\<close>: every key present in the insert
  value overrides, an absent key leaves the existing value.\<close>

definition spread :: "'a option \<Rightarrow> 'a optional \<Rightarrow> 'a option" where
  "spread old new = (case new of Absent \<Rightarrow> old | Null \<Rightarrow> None | Present v \<Rightarrow> Some v)"

definition updateMenuItem :: "MemStorage \<Rightarrow> int \<Rightarrow> InsertMenuItem \<Rightarrow> MenuItem option \<times> MemStorage" where
  "updateMenuItem s i insertMenuItem =
     (case map_get (menuItems s) i of
        None \<Rightarrow> (None, s)
      | Some existingMenuItem \<Rightarrow>
          (let updatedMenuItem = existingMenuItem\<lparr>
                 m_name := im_name insertMenuItem,
                 m_description := im_description insertMenuItem,
                 m_price := im_price insertMenuItem,
                 m_imageUrl := spread (m_imageUrl existingMenuItem) (im_imageUrl insertMenuItem),
                 m_category := im_category insertMenuItem,
                 m_isPopular := spread (m_isPopular existingMenuItem) (im_isPopular insertMenuItem) \<rparr>
           in (Some updatedMenuItem, s\<lparr> menuItems := map_set (menuItems s) i updatedMenuItem \<rparr>)))"

definition deleteMenuItem :: "MemStorage \<Rightarrow> int \<Rightarrow> bool \<times> MemStorage" where
  "deleteMenuItem s i =
     (let (found, m') = map_delete (menuItems s) i in (found, s\<lparr> menuItems := m' \<rparr>))"

subsection \<open>Cart\<close>

definition getCartItems :: "MemStorage \<Rightarrow> int \<Rightarrow> CartItem list" where
  "getCartItems s userId = filter (\<lambda>item. c_userId item = userId) (map_values (cartItems s))"

definition getCartItemsWithDetails :: "MemStorage \<Rightarrow> int \<Rightarrow> CartItemWithDetails list" where
  "getCartItemsWithDetails s userId =
     map (\<lambda>item. (item, getMenuItemById s (c_menuItemId item))) (getCartItems s userId)"

definition updateCartItemQuantity ::
  "MemStorage \<Rightarrow> int \<Rightarrow> int \<Rightarrow> int \<Rightarrow> CartItem option \<times> MemStorage" where
  "updateCartItemQuantity s i userId quantity =
     (case map_get (cartItems s) i of
        None \<Rightarrow> (None, s)
      | Some cartItem \<Rightarrow>
          (if c_userId cartItem \<noteq> userId then (None, s)
           else (let updatedCartItem = cartItem\<lparr> c_quantity := quantity \<rparr>
                 in (Some updatedCartItem,
                     s\<lparr> cartItems := map_set (cartItems s) i updatedCartItem \<rparr>))))"

text \<open>\<open>addToCart\<close> returns what \<open>updateCartItemQuantity\<close> returns on the merge path (the
  source casts it to a \<open>CartItem\<close>), hence the option.\<close>

definition addToCart :: "MemStorage \<Rightarrow> InsertCartItem \<Rightarrow> CartItem option \<times> MemStorage" where
  "addToCart s insertCartItem =
     (case List.find (\<lambda>item. c_userId item = ic_userId insertCartItem
                           \<and> c_menuItemId item = ic_menuItemId insertCartItem)
             (map_values (cartItems s)) of
        Some existingCartItem \<Rightarrow>
          updateCartItemQuantity s (c_id existingCartItem) (ic_userId insertCartItem)
            (c_quantity existingCartItem + or_one (ic_quantity insertCartItem))
      | None \<Rightarrow>
          (let i = cartItemIdCounter s;
               cartItem = \<lparr> c_id = i,
                           c_userId = ic_userId insertCartItem,
                           c_menuItemId = ic_menuItemId insertCartItem,
                           c_quantity = or_one (ic_quantity insertCartItem),
                           c_selectedAddons = None,
                           c_specialInstructions = None \<rparr>
           in (Some cartItem,
               s\<lparr> cartItemIdCounter := i + 1, cartItems := map_set (cartItems s) i cartItem \<rparr>)))"

definition removeFromCart :: "MemStorage \<Rightarrow> int \<Rightarrow> int \<Rightarrow> bool \<times> MemStorage" where
  "removeFromCart s i userId =
     (case map_get (cartItems s) i of
        None \<Rightarrow> (False, s)
      | Some cartItem \<Rightarrow>
          (if c_userId cartItem \<noteq> userId then (False, s)
           else (let (found, m') = map_delete (cartItems s) i
                 in (found, s\<lparr> cartItems := m' \<rparr>))))"

text \<open>The loop of \<open>clearCart\<close>: one \<open>delete\<close> per line read beforehand, by the line's
  own \<open>id\<close>.\<close>

fun delete_each :: "CartItem list \<Rightarrow> (int, CartItem) js_map \<Rightarrow> (int, CartItem) js_map" where
  "delete_each [] m = m"
| "delete_each (item # items) m = delete_each items (snd (map_delete m (c_id item)))"

definition clearCart :: "MemStorage \<Rightarrow> int \<Rightarrow> bool \<times> MemStorage" where
  "clearCart s userId =
     (let items = getCartItems s userId
      in (True, s\<lparr> cartItems := delete_each items (cartItems s) \<rparr>))"

subsection \<open>Orders\<close>

definition createOrder :: "MemStorage \<Rightarrow> int \<Rightarrow> InsertOrder \<Rightarrow> Order \<times> MemStorage" where
  "createOrder s now insertOrder =
     (let i = orderIdCounter s;
          order = \<lparr> o_id = i,
                    o_userId = io_userId insertOrder,
                    o_items = io_items insertOrder,
                    o_status = ''pending'',
                    o_total = io_total insertOrder,
                    o_createdAt = Some now,
                    o_address = or_null (io_address insertOrder),
                    o_paymentId = or_null (io_paymentId insertOrder) \<rparr>
      in (order, s\<lparr> orderIdCounter := i + 1, orders := map_set (orders s) i order \<rparr>))"

definition getOrderById :: "MemStorage \<Rightarrow> int \<Rightarrow> Order option" where
  "getOrderById s i = map_get (orders s) i"

definition getAllOrders :: "MemStorage \<Rightarrow> Order list" where
  "getAllOrders s = map_values (orders s)"

definition updateOrderStatus :: "MemStorage \<Rightarrow> int \<Rightarrow> string \<Rightarrow> Order option \<times> MemStorage" where
  "updateOrderStatus s i status =
     (case map_get (orders s) i of
        None \<Rightarrow> (None, s)
      | Some order \<Rightarrow>
          (let updatedOrder = order\<lparr> o_status := status \<rparr>
           in (Some updatedOrder, s\<lparr> orders := map_set (orders s) i updatedOrder \<rparr>)))"

text \<open>
  \<open>getOrdersByUserId\<close> reads the stored \<open>items\<close> value as an array of objects. Where it
  is not one, JavaScript raises a \<open>TypeError\<close>: calling \<open>map\<close> on a value that is not an
  array, or reading a property of \<open>null\<close>. The other primitives and arrays have no
  property \<open>menuItemId\<close> or \<open>quantity\<close> and yield \<open>undefined\<close> (\<open>None\<close>). The keys of a
  \<open>JObj\<close> are the distinct own properties of the parsed object.
\<close>

datatype js_error = TypeError

fun get_prop :: "json \<Rightarrow> string \<Rightarrow> js_error + json option" where
  "get_prop JNull k = Inl TypeError"
| "get_prop (JObj kvs) k = Inr (map_of kvs k)"
| "get_prop _ k = Inr None"

text \<open>\<open>Map.get\<close> with a value read from JSON as the key: only a number equal to a stored
  key finds an entry.\<close>

definition as_int :: "json option \<Rightarrow> int option" where
  "as_int v = (case v of
       Some (JNum r) \<Rightarrow> (if of_int \<lfloor>r\<rfloor> = r then Some \<lfloor>r\<rfloor> else None)
     | _ \<Rightarrow> None)"

definition getMenuItemByJson :: "MemStorage \<Rightarrow> json option \<Rightarrow> MenuItem option" where
  "getMenuItemByJson s v = (case as_int v of None \<Rightarrow> None | Some i \<Rightarrow> getMenuItemById s i)"

text \<open>\<open>Promise.all\<close> over the mapped array: the results in order, or the rejection.\<close>

fun promise_all :: "(js_error + 'a) list \<Rightarrow> js_error + 'a list" where
  "promise_all [] = Inr []"
| "promise_all (Inl e # ps) = Inl e"
| "promise_all (Inr x # ps) = (case promise_all ps of Inl e \<Rightarrow> Inl e | Inr xs \<Rightarrow> Inr (x # xs))"

definition item_with_details :: "MemStorage \<Rightarrow> json \<Rightarrow> js_error + OrderItemDetails" where
  "item_with_details s item =
     (case get_prop item ''menuItemId'' of
        Inl e \<Rightarrow> Inl e
      | Inr menuItemId \<Rightarrow>
          (case get_prop item ''quantity'' of
             Inl e \<Rightarrow> Inl e
           | Inr quantity \<Rightarrow> Inr (getMenuItemByJson s menuItemId, quantity)))"

definition order_with_items :: "MemStorage \<Rightarrow> Order \<Rightarrow> js_error + OrderWithItems" where
  "order_with_items s order =
     (case o_items order of
        JArr items \<Rightarrow>
          (case promise_all (map (item_with_details s) items) of
             Inl e \<Rightarrow> Inl e
           | Inr itemsWithDetails \<Rightarrow> Inr (order, itemsWithDetails))
      | _ \<Rightarrow> Inl TypeError)"

definition getOrdersByUserId :: "MemStorage \<Rightarrow> int \<Rightarrow> js_error + OrderWithItems list" where
  "getOrdersByUserId s userId =
     (let userOrders = filter (\<lambda>order. o_userId order = userId) (map_values (orders s))
      in promise_all (map (order_with_items s) userOrders))"

section \<open>The HTTP handlers (server/routes.ts)\<close>

text \<open>
  A request carries the session state (\<open>req.isAuthenticated()\<close>, \<open>req.user\<close>) and the parsed
  JSON body, an object given by its properties. A path parameter is given as the integer
  that \<open>parseInt\<close> reads from it. A response is the status code and what is sent.
\<close>

record Request =
  req_isAuthenticated :: bool
  req_user :: "User option"
  req_body :: "(string \<times> json) list"

datatype payload =
    Message string
  | InvalidData "string list"
  | CartJson "CartItemWithDetails list"
  | CartItemJson "CartItem option"
  | OrderJson Order
  | OrdersJson "OrderWithItems list"
  | ClientSecretJson "string option"
  | NoContent

type_synonym Response = "int \<times> payload"



definition admin_flag :: "User \<Rightarrow> bool" where
  "admin_flag u = (u_isAdmin u = Some True)"

subsection \<open>Validation schemas\<close>

text \<open>
  \<open>insertCartItemSchema\<close> and \<open>insertOrderSchema\<close> are derived from the table declarations
  and picked down to the listed columns; any other property of the body (a \<open>status\<close>, an
  \<open>id\<close>) is dropped. A \<open>notNull\<close> column without default is required, one with a default is
  optional, a nullable one accepts \<open>null\<close> or absence. An \<open>integer\<close> column takes an integral
  number, \<open>doublePrecision\<close> any number, \<open>text\<close> a string, \<open>jsonb\<close> any JSON value. No column
  carries a lower bound. The error lists the offending properties.
\<close>

datatype ZodError = ZodError "string list"

definition nullable_text :: "json option \<Rightarrow> string option option" where
  "nullable_text v = (case v of
       None \<Rightarrow> Some None
     | Some JNull \<Rightarrow> Some None
     | Some (JStr t) \<Rightarrow> Some (Some t)
     | _ \<Rightarrow> None)"

definition as_number :: "json option \<Rightarrow> real option" where
  "as_number v = (case v of Some (JNum r) \<Rightarrow> Some r | _ \<Rightarrow> None)"

definition insertCartItemSchema_parse ::
  "(string \<times> json) list \<Rightarrow> int \<Rightarrow> ZodError + InsertCartItem" where
  "insertCartItemSchema_parse body userId =
     (let menuItemId = map_of body ''menuItemId'';
          quantity = map_of body ''quantity'';
          issues = (if as_int menuItemId = None then [''menuItemId''] else [])
                 @ (if quantity \<noteq> None \<and> as_int quantity = None then [''quantity''] else [])
      in if issues = []
         then Inr \<lparr> ic_userId = userId,
                    ic_menuItemId = the (as_int menuItemId),
                    ic_quantity = as_int quantity \<rparr>
         else Inl (ZodError issues))"

definition insertOrderSchema_parse ::
  "(string \<times> json) list \<Rightarrow> int \<Rightarrow> ZodError + InsertOrder" where
  "insertOrderSchema_parse body userId =
     (let items = map_of body ''items'';
          total = map_of body ''total'';
          address = map_of body ''address'';
          paymentId = map_of body ''paymentId'';
          issues = (if items = None then [''items''] else [])
                 @ (if as_number total = None then [''total''] else [])
                 @ (if nullable_text address = None then [''address''] else [])
                 @ (if nullable_text paymentId = None then [''paymentId''] else [])
      in if issues = []
         then Inr \<lparr> io_userId = userId,
                    io_items = the items,
                    io_total = the (as_number total),
                    io_address = the (nullable_text address),
                    io_paymentId = the (nullable_text paymentId) \<rparr>
         else Inl (ZodError issues))"

subsection \<open>Cart routes\<close>

definition get_cart :: "MemStorage \<Rightarrow> Request \<Rightarrow> Response" where
  "get_cart s req =
     (if \<not> req_isAuthenticated req then (401, Message ''Unauthorized'')
      else case req_user req of
        None \<Rightarrow> (401, Message ''Unauthorized'')
      | Some user \<Rightarrow> (200, CartJson (getCartItemsWithDetails s (u_id user))))"

definition post_cart :: "MemStorage \<Rightarrow> Request \<Rightarrow> Response \<times> MemStorage" where
  "post_cart s req =
     (if \<not> req_isAuthenticated req then ((401, Message ''Unauthorized''), s)
      else case req_user req of
        None \<Rightarrow> ((401, Message ''Unauthorized''), s)
      | Some user \<Rightarrow>
          (case insertCartItemSchema_parse (req_body req) (u_id user) of
             Inl (ZodError errors) \<Rightarrow> ((400, InvalidData errors), s)
           | Inr validatedData \<Rightarrow>
               (let (cartItem, s') = addToCart s validatedData
                in ((201, CartItemJson cartItem), s'))))"

definition delete_cart :: "MemStorage \<Rightarrow> Request \<Rightarrow> int \<Rightarrow> Response \<times> MemStorage" where
  "delete_cart s req i =
     (if \<not> req_isAuthenticated req then ((401, Message ''Unauthorized''), s)
      else case req_user req of
        None \<Rightarrow> ((401, Message ''Unauthorized''), s)
      | Some user \<Rightarrow>
          (let (success, s') = removeFromCart s i (u_id user)
           in if \<not> success then ((404, Message ''Cart item not found''), s')
              else ((204, NoContent), s')))"

text \<open>
  \<open>PUT /api/cart/:id\<close> checks \<open>typeof quantity !== 'number' || quantity < 1\<close> itself. A
  number of at least 1 that is not integral passes this check and would be stored as it
  is; the store of this model keeps integral quantities, so that request is outside the
  model (\<open>None\<close>).
\<close>

definition put_cart :: "MemStorage \<Rightarrow> Request \<Rightarrow> int \<Rightarrow> (Response \<times> MemStorage) option" where
  "put_cart s req i =
     (if \<not> req_isAuthenticated req then Some ((401, Message ''Unauthorized''), s)
      else case req_user req of
        None \<Rightarrow> Some ((401, Message ''Unauthorized''), s)
      | Some user \<Rightarrow>
          (case as_number (map_of (req_body req) ''quantity'') of
             None \<Rightarrow> Some ((400, Message ''Quantity must be a positive number''), s)
           | Some r \<Rightarrow>
               if r < 1 then Some ((400, Message ''Quantity must be a positive number''), s)
               else (case as_int (map_of (req_body req) ''quantity'') of
                  None \<Rightarrow> None
                | Some quantity \<Rightarrow>
                    (case updateCartItemQuantity s i (u_id user) quantity of
                       (None, s') \<Rightarrow> Some ((404, Message ''Cart item not found''), s')
                     | (Some cartItem, s') \<Rightarrow> Some ((200, CartItemJson (Some cartItem)), s')))))"

subsection \<open>Order routes\<close>

definition post_orders :: "MemStorage \<Rightarrow> int \<Rightarrow> Request \<Rightarrow> Response \<times> MemStorage" where
  "post_orders s now req =
     (if \<not> req_isAuthenticated req then ((401, Message ''Unauthorized''), s)
      else case req_user req of
        None \<Rightarrow> ((401, Message ''Unauthorized''), s)
      | Some user \<Rightarrow>
          (case insertOrderSchema_parse (req_body req) (u_id user) of
             Inl (ZodError errors) \<Rightarrow> ((400, InvalidData errors), s)
           | Inr validatedData \<Rightarrow>
               (let (order, s1) = createOrder s now validatedData;
                    (cleared, s2) = clearCart s1 (u_id user)
                in ((201, OrderJson order), s2))))"

definition get_orders_by_user :: "MemStorage \<Rightarrow> Request \<Rightarrow> int \<Rightarrow> Response" where
  "get_orders_by_user s req userId =
     (if \<not> req_isAuthenticated req then (401, Message ''Unauthorized'')
      else case req_user req of
        None \<Rightarrow> (401, Message ''Unauthorized'')
      | Some user \<Rightarrow>
          if userId \<noteq> u_id user \<and> \<not> admin_flag user then (403, Message ''Forbidden'')
          else (case getOrdersByUserId s userId of
             Inl e \<Rightarrow> (500, Message ''Error fetching orders'')
           | Inr userOrders \<Rightarrow> (200, OrdersJson userOrders)))"



subsection \<open>Binary64 numbers\<close>

text \<open>
  A JavaScript number is a binary64 value or an infinity. \<open>JSON.parse\<close> reads a number as
  the nearest binary64 value and a product is the nearest binary64 value to the exact
  product; a tie goes to the even significand, and a result of magnitude \<open>2^1024\<close> or
  more is an infinity. The spacing of the binary64 values around \<open>x\<close> is \<open>ulp x\<close>: 52
  binary places below the leading bit of \<open>x\<close>, and \<open>2^-1074\<close> throughout the subnormal
  range.
\<close>

definition round_half_even :: "real \<Rightarrow> int" where
  "round_half_even m =
     (let n = \<lfloor>m\<rfloor>
      in if m - of_int n < 1 / 2 then n
         else if 1 / 2 < m - of_int n then n + 1
         else if even n then n else n + 1)"

definition ulp :: "real \<Rightarrow> real" where
  "ulp x = 2 powi (max \<lfloor>log 2 \<bar>x\<bar>\<rfloor> (- 1022) - 52)"

datatype number = Finite real | PosInfinity | NegInfinity

definition binary64 :: "real \<Rightarrow> number" where
  "binary64 x =
     (if x = 0 then Finite 0
      else let y = of_int (round_half_even (x / ulp x)) * ulp x
           in if 2 ^ 1024 \<le> y then PosInfinity
              else if y \<le> - (2 ^ 1024) then NegInfinity
              else Finite y)"

text \<open>What a handler holds after reading a property of the parsed body.\<close>

datatype js_value =
    JsUndefined
  | JsNull
  | JsBoolean bool
  | JsNumber number
  | JsString string
  | JsObject

fun parsed :: "json option \<Rightarrow> js_value" where
  "parsed None = JsUndefined"
| "parsed (Some JNull) = JsNull"
| "parsed (Some (JBool b)) = JsBoolean b"
| "parsed (Some (JNum r)) = JsNumber (binary64 r)"
| "parsed (Some (JStr t)) = JsString t"
| "parsed (Some (JArr xs)) = JsObject"
| "parsed (Some (JObj kvs)) = JsObject"

fun js_truthy :: "js_value \<Rightarrow> bool" where
  "js_truthy JsUndefined = False"
| "js_truthy JsNull = False"
| "js_truthy (JsBoolean b) = b"
| "js_truthy (JsNumber n) = (n \<noteq> Finite 0)"
| "js_truthy (JsString t) = (t \<noteq> [])"
| "js_truthy JsObject = True"

text \<open>The conversion to a number that \<open><=\<close> and \<open>*\<close> apply to an operand. It is modelled
  for numbers, booleans and \<open>null\<close>; a string, an array or an object goes through
  conversions that are outside the model (\<open>None\<close>), and \<open>undefined\<close> never reaches it.\<close>

fun js_to_number :: "js_value \<Rightarrow> number option" where
  "js_to_number (JsNumber n) = Some n"
| "js_to_number (JsBoolean b) = Some (Finite (if b then 1 else 0))"
| "js_to_number JsNull = Some (Finite 0)"
| "js_to_number _ = None"

fun le_zero :: "number \<Rightarrow> bool" where
  "le_zero (Finite a) = (a \<le> 0)"
| "le_zero PosInfinity = False"
| "le_zero NegInfinity = True"

text \<open>The product of a number with the constant 100.\<close>

fun times_100 :: "number \<Rightarrow> number" where
  "times_100 (Finite a) = binary64 (a * 100)"
| "times_100 PosInfinity = PosInfinity"
| "times_100 NegInfinity = NegInfinity"

subsection \<open>Payment route\<close>

text \<open>
  The payment provider is a parameter: \<open>create\<close> stands for
  \<open>stripe.paymentIntents.create\<close>, which returns a payment intent or throws.
  \<open>Math.round\<close> takes the nearest integer, halves upwards. The handler tests
  \<open>!amount || amount <= 0\<close> and then sends \<open>Math.round(amount * 100)\<close>. When the product is
  an infinity so is its rounding, which is no integer amount: that request is outside
  the model (\<open>None\<close>), as is an \<open>amount\<close> that is a non-empty string, an array or an
  object.
\<close>

record PaymentIntentParams =
  pp_amount :: int
  pp_currency :: string
  pp_userId :: int

record PaymentIntent =
  pi_id :: string
  pi_client_secret :: "string option"

definition Math_round :: "real \<Rightarrow> int" where
  "Math_round x = \<lfloor>x + 1 / 2\<rfloor>"

definition post_payment ::
  "(PaymentIntentParams \<Rightarrow> js_error + PaymentIntent) \<Rightarrow> Request \<Rightarrow> Response option" where
  "post_payment create req =
     (if \<not> req_isAuthenticated req then Some (401, Message ''Unauthorized'')
      else case req_user req of
        None \<Rightarrow> Some (401, Message ''Unauthorized'')
      | Some user \<Rightarrow>
          (let amount = parsed (map_of (req_body req) ''amount'')
           in if \<not> js_truthy amount then Some (400, Message ''Invalid amount'')
              else (case js_to_number amount of
                 None \<Rightarrow> None
               | Some n \<Rightarrow>
                   if le_zero n then Some (400, Message ''Invalid amount'')
                   else (case times_100 n of
                      Finite p \<Rightarrow>
                        (case create \<lparr> pp_amount = Math_round p,
                                        pp_currency = ''usd'',
                                        pp_userId = u_id user \<rparr> of
                           Inl e \<Rightarrow> Some (500, Message ''Error processing payment'')
                         | Inr paymentIntent \<Rightarrow>
                             Some (200, ClientSecretJson (pi_client_secret paymentIntent)))
                    | _ \<Rightarrow> None))))"

section \<open>Reachable stores\<close>

text \<open>
  One step of \<open>updateMenuItemsWithEnhancedFeatures\<close>: the item with the given \<open>id\<close>, if
  there is one, is stored again under its own \<open>id\<close> with the two columns replaced.
\<close>

definition enhanceMenuItem :: "MemStorage \<Rightarrow> int \<Rightarrow> json option \<Rightarrow> json option \<Rightarrow> MemStorage" where
  "enhanceMenuItem s i dietaryPreferences nutritionalInfo =
     (case List.find (\<lambda>m. m_id m = i) (map_values (menuItems s)) of
        None \<Rightarrow> s
      | Some item \<Rightarrow>
          (let updatedItem = item\<lparr> m_dietaryPreferences := dietaryPreferences,
                                    m_nutritionalInfo := nutritionalInfo \<rparr>
           in s\<lparr> menuItems := map_set (menuItems s) (m_id item) updatedItem \<rparr>))"

text \<open>Every way the class changes its state, as one operation each.\<close>

datatype operation =
    CreateUser InsertUser
  | CreateMenuItem int InsertMenuItem
  | UpdateMenuItem int InsertMenuItem
  | DeleteMenuItem int
  | EnhanceMenuItem int "json option" "json option"
  | AddToCart InsertCartItem
  | RemoveFromCart int int
  | UpdateCartItemQuantity int int int
  | ClearCart int
  | CreateOrder int InsertOrder
  | UpdateOrderStatus int string

fun apply_operation :: "MemStorage \<Rightarrow> operation \<Rightarrow> MemStorage" where
  "apply_operation s (CreateUser iu) = snd (createUser s iu)"
| "apply_operation s (CreateMenuItem now im) = snd (createMenuItem s now im)"
| "apply_operation s (UpdateMenuItem i im) = snd (updateMenuItem s i im)"
| "apply_operation s (DeleteMenuItem i) = snd (deleteMenuItem s i)"
| "apply_operation s (EnhanceMenuItem i dp ni) = enhanceMenuItem s i dp ni"
| "apply_operation s (AddToCart ic) = snd (addToCart s ic)"
| "apply_operation s (RemoveFromCart i userId) = snd (removeFromCart s i userId)"
| "apply_operation s (UpdateCartItemQuantity i userId q) = snd (updateCartItemQuantity s i userId q)"
| "apply_operation s (ClearCart userId) = snd (clearCart s userId)"
| "apply_operation s (CreateOrder now io) = snd (createOrder s now io)"
| "apply_operation s (UpdateOrderStatus i status) = snd (updateOrderStatus s i status)"

fun run :: "MemStorage \<Rightarrow> operation list \<Rightarrow> MemStorage" where
  "run s [] = s"
| "run s (op # ops) = run (apply_operation s op) ops"

definition reachable :: "MemStorage \<Rightarrow> bool" where
  "reachable s = (\<exists>ops. s = run MemStorage_new ops)"

text \<open>
  The invariant of one table: keys are distinct, every entity is stored under its own
  \<open>id\<close>, and every \<open>id\<close> lies from 1 up to, not including, the table's counter.
\<close>

definition keyed :: "('v \<Rightarrow> int) \<Rightarrow> int \<Rightarrow> (int, 'v) js_map \<Rightarrow> bool" where
  "keyed ident counter m =
     (1 \<le> counter \<and> distinct (map fst m)
      \<and> list_all (\<lambda>(k, v). ident v = k \<and> 1 \<le> k \<and> k < counter) m)"

definition store_ok :: "MemStorage \<Rightarrow> bool" where
  "store_ok s =
     (keyed u_id (userIdCounter s) (users s)
      \<and> keyed m_id (menuItemIdCounter s) (menuItems s)
      \<and> keyed c_id (cartItemIdCounter s) (cartItems s)
      \<and> keyed o_id (orderIdCounter s) (orders s))"

text \<open>The cart invariant of the data model: at most one line per user and menu item.\<close>

definition pair_of :: "CartItem \<Rightarrow> int \<times> int" where
  "pair_of c = (c_userId c, c_menuItemId c)"

definition one_line_per_pair :: "MemStorage \<Rightarrow> bool" where
  "one_line_per_pair s = distinct (map pair_of (map_values (cartItems s)))"

text \<open>Whether the cart holds a line of the user for the menu item, and the lines it
  holds for them.\<close>

definition has_line :: "MemStorage \<Rightarrow> int \<Rightarrow> int \<Rightarrow> bool" where
  "has_line s userId menuItemId =
     list_ex (\<lambda>c. c_userId c = userId \<and> c_menuItemId c = menuItemId) (map_values (cartItems s))"

definition lines_of :: "MemStorage \<Rightarrow> int \<Rightarrow> int \<Rightarrow> CartItem list" where
  "lines_of s userId menuItemId =
     filter (\<lambda>c. c_userId c = userId \<and> c_menuItemId c = menuItemId) (map_values (cartItems s))"

text \<open>The line that \<open>addToCart\<close> builds when it creates one.\<close>

definition new_line :: "int \<Rightarrow> int \<Rightarrow> int \<Rightarrow> int \<Rightarrow> CartItem" where
  "new_line i userId menuItemId quantity =
     \<lparr> c_id = i, c_userId = userId, c_menuItemId = menuItemId, c_quantity = quantity,
       c_selectedAddons = None, c_specialInstructions = None \<rparr>"

text \<open>No counter of the second store is below that of the first.\<close>

definition counters_le :: "MemStorage \<Rightarrow> MemStorage \<Rightarrow> bool" where
  "counters_le s s' =
     (userIdCounter s \<le> userIdCounter s' \<and> menuItemIdCounter s \<le> menuItemIdCounter s'
      \<and> cartItemIdCounter s \<le> cartItemIdCounter s' \<and> orderIdCounter s \<le> orderIdCounter s')"

section \<open>What \<open>getOrdersByUserId\<close> computes\<close>

text \<open>
  The orders of a user in stored order; an order can be read when its \<open>items\<close> are an
  array without a \<open>null\<close> entry; the result for such an order pairs it with, for each
  entry, the menu item found under the entry's \<open>menuItemId\<close> and the entry's \<open>quantity\<close>.
\<close>

definition orders_of :: "MemStorage \<Rightarrow> int \<Rightarrow> Order list" where
  "orders_of s userId = filter (\<lambda>order. o_userId order = userId) (map_values (orders s))"

definition order_readable :: "Order \<Rightarrow> bool" where
  "order_readable order =
     (case o_items order of JArr items \<Rightarrow> list_all (\<lambda>item. item \<noteq> JNull) items | _ \<Rightarrow> False)"

definition property_of :: "json \<Rightarrow> string \<Rightarrow> json option" where
  "property_of item k = (case item of JObj kvs \<Rightarrow> map_of kvs k | _ \<Rightarrow> None)"

definition joined :: "MemStorage \<Rightarrow> Order \<Rightarrow> OrderWithItems" where
  "joined s order =
     (order,
      map (\<lambda>item. (getMenuItemByJson s (property_of item ''menuItemId''),
                   property_of item ''quantity''))
          (case o_items order of JArr items \<Rightarrow> items | _ \<Rightarrow> []))"

section \<open>Sample data\<close>

definition admin_insert :: InsertUser where
  "admin_insert = \<lparr> iu_username = ''admin'', iu_password = ''admin_password'',
      iu_name = Some ''Admin User'', iu_email = Some ''admin@quickbite.com'',
      iu_isAdmin = Some True \<rparr>"

definition alice_insert :: InsertUser where
  "alice_insert = \<lparr> iu_username = ''alice'', iu_password = ''secret'',
      iu_name = None, iu_email = None, iu_isAdmin = None \<rparr>"

definition pizza_insert :: InsertMenuItem where
  "pizza_insert = \<lparr> im_name = ''Pepperoni Pizza'', im_description = ''Classic pepperoni pizza'',
      im_price = 12.99, im_imageUrl = Absent, im_category = ''Pizza'',
      im_isPopular = Present True \<rparr>"

definition demo_items :: json where
  "demo_items = JArr [JObj [(''menuItemId'', JNum 1), (''quantity'', JNum 2)]]"

definition demo_ops :: "operation list" where
  "demo_ops =
     [CreateUser admin_insert,
      CreateUser alice_insert,
      CreateMenuItem 1000 pizza_insert,
      AddToCart \<lparr> ic_userId = 2, ic_menuItemId = 1, ic_quantity = Some 2 \<rparr>,
      AddToCart \<lparr> ic_userId = 1, ic_menuItemId = 1, ic_quantity = None \<rparr>,
      AddToCart \<lparr> ic_userId = 2, ic_menuItemId = 2, ic_quantity = Some 1 \<rparr>,
      CreateOrder 2000 \<lparr> io_userId = 2, io_items = demo_items, io_total = 28.97,
                          io_address = Some ''1 Main St'', io_paymentId = None \<rparr>]"

text \<open>A store with two users (the admin has id 1, alice id 2), one menu item, three cart
  lines and one order of alice.\<close>

definition demo_store :: MemStorage where
  "demo_store = run MemStorage_new demo_ops"

definition admin :: User where
  "admin = \<lparr> u_id = 1, u_username = ''admin'', u_password = ''admin_password'',
      u_name = Some ''Admin User'', u_email = Some ''admin@quickbite.com'',
      u_isAdmin = Some True \<rparr>"

definition alice :: User where
  "alice = \<lparr> u_id = 2, u_username = ''alice'', u_password = ''secret'',
      u_name = None, u_email = None, u_isAdmin = Some False \<rparr>"

definition pizza :: MenuItem where
  "pizza = \<lparr> m_id = 1, m_name = ''Pepperoni Pizza'',
      m_description = ''Classic pepperoni pizza'', m_price = 12.99, m_imageUrl = None,
      m_category = ''Pizza'', m_rating = Some 0, m_reviewCount = Some 0,
      m_isPopular = Some True, m_isSeasonal = Some False, m_isCombo = Some False,
      m_dietaryPreferences = None, m_nutritionalInfo = None, m_availableAddons = None,
      m_comboItems = None, m_discountPercentage = Some 0, m_createdAt = Some 1000 \<rparr>"

definition demo_order :: Order where
  "demo_order = \<lparr> o_id = 1, o_userId = 2, o_items = demo_items, o_status = ''pending'',
      o_total = 28.97, o_createdAt = Some 2000, o_address = Some ''1 Main St'',
      o_paymentId = None \<rparr>"

text \<open>A checkout body that also carries a \<open>status\<close>, and one whose \<open>items\<close> are a
  number.\<close>

definition order_body :: "(string \<times> json) list" where
  "order_body = [(''status'', JStr ''delivered''), (''items'', demo_items),
                 (''total'', JNum 28.97), (''address'', JStr ''1 Main St'')]"

definition malformed_body :: "(string \<times> json) list" where
  "malformed_body = [(''items'', JNum 5), (''total'', JNum 1)]"

definition request_of :: "User \<Rightarrow> (string \<times> json) list \<Rightarrow> Request" where
  "request_of user body = \<lparr> req_isAuthenticated = True, req_user = Some user, req_body = body \<rparr>"

text \<open>The store after alice has posted the order with the malformed body.\<close>

definition malformed_store :: MemStorage where
  "malformed_store = snd (post_orders demo_store 3000 (request_of alice malformed_body))"


text \<open>A payment provider that knows three amounts and fails on every other one.\<close>

definition demo_provider :: "PaymentIntentParams \<Rightarrow> js_error + PaymentIntent" where
  "demo_provider params =
     (if pp_amount params = 13
      then Inr \<lparr> pi_id = ''pi_1'', pi_client_secret = Some ''secret_for_13'' \<rparr>
      else if pp_amount params = 100
      then Inr \<lparr> pi_id = ''pi_2'', pi_client_secret = Some ''secret_for_100'' \<rparr>
      else if pp_amount params = 268
      then Inr \<lparr> pi_id = ''pi_3'', pi_client_secret = Some ''secret_for_268'' \<rparr>
      else Inl TypeError)"

section \<open>Facts about the map operations\<close>

lemma map_get_map_set: "map_get (map_set m k v) k' = (if k' = k then Some v else map_get m k')"
  by (induction m) (auto simp: map_get_def)

lemma map_set_fresh: "k \<notin> fst ` set m \<Longrightarrow> map_set m k v = m @ [(k, v)]"
  by (induction m) auto

lemma map_set_append_last: "k \<notin> fst ` set m \<Longrightarrow> map_set (m @ [(k, v)]) k v' = m @ [(k, v')]"
  by (induction m) auto

lemma keys_map_set:
  "map fst (map_set m k v) = (if k \<in> fst ` set m then map fst m else map fst m @ [k])"
  by (induction m) force+

lemma set_map_set: "set (map_set m k v) \<subseteq> insert (k, v) (set m)"
  by (induction m) (auto split: if_splits)

lemma delete_each_filter: "delete_each items m = filter (\<lambda>p. fst p \<notin> c_id ` set items) m"
  by (induction items arbitrary: m) (auto simp: map_delete_def intro: filter_cong)

subsection \<open>The table invariant\<close>

lemma keyed_less: "keyed f n m \<Longrightarrow> n \<notin> fst ` set m"
  by (auto simp: keyed_def list_all_iff)

lemma keyed_mono: "keyed f n m \<Longrightarrow> n \<le> n' \<Longrightarrow> keyed f n' m"
  by (auto simp: keyed_def list_all_iff)

lemma keyed_set: "keyed f n m \<Longrightarrow> f v = k \<Longrightarrow> 1 \<le> k \<Longrightarrow> k < n \<Longrightarrow> keyed f n (map_set m k v)"
  using set_map_set[of m k v] by (auto simp: keyed_def list_all_iff keys_map_set)

lemma keyed_filter: "keyed f n m \<Longrightarrow> keyed f n (filter P m)"
  by (auto simp: keyed_def list_all_iff distinct_map_filter)

lemma keyed_get: "keyed f n m \<Longrightarrow> map_get m k = Some v \<Longrightarrow> f v = k \<and> 1 \<le> k \<and> k < n"
  by (auto simp: keyed_def list_all_iff map_get_def dest: map_of_SomeD)

lemma keyed_fresh:
  assumes "keyed f n m" "f v = n"
  shows "keyed f (n + 1) (map_set m n v)"
proof -
  have "keyed f (n + 1) m" using assms(1) by (rule keyed_mono) simp
  moreover have "1 \<le> n" using assms(1) by (simp add: keyed_def)
  ultimately show ?thesis using assms(2) by (simp add: keyed_set)
qed

lemma keyed_replace:
  assumes "keyed f n m" "map_get m k = Some v" "f v' = f v"
  shows "keyed f n (map_set m k v')"
proof -
  from keyed_get[OF assms(1,2)] have "f v = k" "1 \<le> k" "k < n" by simp_all
  with assms show ?thesis by (simp add: keyed_set)
qed

lemma keyed_delete_each: "keyed f n m \<Longrightarrow> keyed f n (delete_each items m)"
  by (simp add: delete_each_filter keyed_filter)

lemma find_values_get:
  assumes "keyed f n m" "List.find P (map_values m) = Some v"
  shows "map_get m (f v) = Some v"
proof -
  from assms(2) have "v \<in> set (map_values m)"
    by (auto simp: find_Some_iff)
  then obtain k where kv: "(k, v) \<in> set m"
    by (auto simp: map_values_def)
  with assms(1) have "f v = k" "distinct (map fst m)"
    by (auto simp: keyed_def list_all_iff)
  with kv show ?thesis
    by (simp add: map_get_def)
qed

subsection \<open>Every operation keeps the invariant\<close>

lemma store_ok_createUser: "store_ok s \<Longrightarrow> store_ok (snd (createUser s iu))"
  by (simp add: store_ok_def createUser_def Let_def keyed_fresh)

lemma store_ok_createMenuItem: "store_ok s \<Longrightarrow> store_ok (snd (createMenuItem s now im))"
  by (simp add: store_ok_def createMenuItem_def Let_def keyed_fresh)

lemma store_ok_updateMenuItem: "store_ok s \<Longrightarrow> store_ok (snd (updateMenuItem s i im))"
  by (auto simp: store_ok_def updateMenuItem_def Let_def split: option.splits intro: keyed_replace)

lemma store_ok_deleteMenuItem: "store_ok s \<Longrightarrow> store_ok (snd (deleteMenuItem s i))"
  by (simp add: store_ok_def deleteMenuItem_def map_delete_def keyed_filter)

lemma store_ok_enhanceMenuItem: "store_ok s \<Longrightarrow> store_ok (enhanceMenuItem s i dp ni)"
proof (cases "List.find (\<lambda>m. m_id m = i) (map_values (menuItems s))")
  case None
  then show "store_ok s \<Longrightarrow> ?thesis" by (simp add: enhanceMenuItem_def)
next
  case (Some item)
  assume ok: "store_ok s"
  then have k: "keyed m_id (menuItemIdCounter s) (menuItems s)" by (simp add: store_ok_def)
  from find_values_get[OF k Some] have "map_get (menuItems s) (m_id item) = Some item" .
  with k have "keyed m_id (menuItemIdCounter s)
      (map_set (menuItems s) (m_id item)
         (item\<lparr>m_dietaryPreferences := dp, m_nutritionalInfo := ni\<rparr>))"
    by (rule keyed_replace) simp
  with ok Some show ?thesis by (simp add: store_ok_def enhanceMenuItem_def Let_def)
qed

lemma store_ok_updateCartItemQuantity:
  "store_ok s \<Longrightarrow> store_ok (snd (updateCartItemQuantity s i u q))"
  by (auto simp: store_ok_def updateCartItemQuantity_def Let_def split: option.splits
      intro: keyed_replace)

lemma store_ok_addToCart: "store_ok s \<Longrightarrow> store_ok (snd (addToCart s ic))"
proof (cases "List.find (\<lambda>item. c_userId item = ic_userId ic \<and> c_menuItemId item = ic_menuItemId ic)
             (map_values (cartItems s))")
  case None
  then show "store_ok s \<Longrightarrow> ?thesis"
    by (simp add: addToCart_def Let_def store_ok_def keyed_fresh)
next
  case (Some existing)
  then show "store_ok s \<Longrightarrow> ?thesis"
    by (simp add: addToCart_def store_ok_updateCartItemQuantity)
qed

lemma store_ok_removeFromCart: "store_ok s \<Longrightarrow> store_ok (snd (removeFromCart s i u))"
  by (auto simp: store_ok_def removeFromCart_def map_delete_def keyed_filter split: option.splits)

lemma store_ok_clearCart: "store_ok s \<Longrightarrow> store_ok (snd (clearCart s u))"
  by (simp add: store_ok_def clearCart_def Let_def keyed_delete_each)

lemma store_ok_createOrder: "store_ok s \<Longrightarrow> store_ok (snd (createOrder s now io))"
  by (simp add: store_ok_def createOrder_def Let_def keyed_fresh)

lemma store_ok_updateOrderStatus: "store_ok s \<Longrightarrow> store_ok (snd (updateOrderStatus s i st))"
  by (auto simp: store_ok_def updateOrderStatus_def Let_def split: option.splits
      intro: keyed_replace)

lemma store_ok_new: "store_ok MemStorage_new"
  by (simp add: store_ok_def MemStorage_new_def keyed_def)

lemma store_ok_apply: "store_ok s \<Longrightarrow> store_ok (apply_operation s op)"
  by (cases op)
     (simp_all add: store_ok_createUser store_ok_createMenuItem store_ok_updateMenuItem
        store_ok_deleteMenuItem store_ok_enhanceMenuItem store_ok_addToCart
        store_ok_removeFromCart store_ok_updateCartItemQuantity store_ok_clearCart
        store_ok_createOrder store_ok_updateOrderStatus)

lemma store_ok_run: "store_ok s \<Longrightarrow> store_ok (run s ops)"
  by (induction ops arbitrary: s) (simp_all add: store_ok_apply)

lemma reachable_store_ok: "reachable s \<Longrightarrow> store_ok s"
  by (auto simp: reachable_def store_ok_run store_ok_new)

subsection \<open>At most one line per user and menu item\<close>

lemma find_append_None: "List.find P xs = None \<Longrightarrow> List.find P (xs @ ys) = List.find P ys"
  by (induction xs) (auto split: if_splits)

lemma map_get_append_fresh: "k \<notin> fst ` set m \<Longrightarrow> map_get (m @ [(k, v)]) k = Some v"
  by (induction m) (auto simp: map_get_def)

lemma one_line_per_pair_alt: "one_line_per_pair s = distinct (map (pair_of \<circ> snd) (cartItems s))"
  by (simp add: one_line_per_pair_def map_values_def)

lemma map_set_same_image:
  "map_get m k = Some v \<Longrightarrow> g v' = g v \<Longrightarrow> map (g \<circ> snd) (map_set m k v') = map (g \<circ> snd) m"
  by (induction m) (auto simp: map_get_def split: if_splits)

lemma one_line_updateCartItemQuantity:
  "one_line_per_pair s \<Longrightarrow> one_line_per_pair (snd (updateCartItemQuantity s i u q))"
  by (auto simp: one_line_per_pair_alt updateCartItemQuantity_def Let_def map_set_same_image pair_of_def
      split: option.splits)

lemma one_line_addToCart:
  assumes "store_ok s" "one_line_per_pair s"
  shows "one_line_per_pair (snd (addToCart s ic))"
proof (cases "List.find (\<lambda>item. c_userId item = ic_userId ic \<and> c_menuItemId item = ic_menuItemId ic)
             (map_values (cartItems s))")
  case None
  from assms(1) have "cartItemIdCounter s \<notin> fst ` set (cartItems s)"
    by (auto simp: store_ok_def dest: keyed_less)
  moreover from None have "(ic_userId ic, ic_menuItemId ic) \<notin> set (map (pair_of \<circ> snd) (cartItems s))"
    by (auto simp: find_None_iff map_values_def pair_of_def)
  ultimately show ?thesis
    using None assms(2)
    by (simp add: addToCart_def Let_def map_set_fresh one_line_per_pair_alt pair_of_def)
next
  case (Some existing)
  then show ?thesis
    using assms(2) by (simp add: addToCart_def one_line_updateCartItemQuantity)
qed

lemma one_line_removeFromCart: "one_line_per_pair s \<Longrightarrow> one_line_per_pair (snd (removeFromCart s i u))"
  by (auto simp: one_line_per_pair_alt removeFromCart_def map_delete_def distinct_map_filter
      split: option.splits)

lemma one_line_clearCart: "one_line_per_pair s \<Longrightarrow> one_line_per_pair (snd (clearCart s u))"
  by (simp add: one_line_per_pair_alt clearCart_def Let_def delete_each_filter distinct_map_filter)

lemma cart_invariants_apply:
  assumes "store_ok s" "one_line_per_pair s"
  shows "one_line_per_pair (apply_operation s op)"
proof (cases op)
  case (AddToCart ic)
  with assms show ?thesis by (simp add: one_line_addToCart)
next
  case (EnhanceMenuItem i dp ni)
  with assms show ?thesis
    by (simp add: one_line_per_pair_def enhanceMenuItem_def Let_def split: option.splits)
qed (use assms in \<open>simp_all add: one_line_removeFromCart one_line_clearCart one_line_updateCartItemQuantity\<close>,
     simp_all add: one_line_per_pair_def createUser_def createMenuItem_def updateMenuItem_def
       deleteMenuItem_def createOrder_def updateOrderStatus_def Let_def split_beta split: option.splits)

lemma cart_invariants_run:
  "store_ok s \<Longrightarrow> one_line_per_pair s \<Longrightarrow> one_line_per_pair (run s ops)"
  by (induction ops arbitrary: s) (simp_all add: cart_invariants_apply store_ok_apply)

lemma reachable_one_line_per_pair: "reachable s \<Longrightarrow> one_line_per_pair s"
  by (auto simp: reachable_def intro!: cart_invariants_run store_ok_new)
     (simp add: one_line_per_pair_def MemStorage_new_def map_values_def)

lemma has_line_addToCart:
  assumes "store_ok s"
  shows "has_line (snd (addToCart s ic)) (ic_userId ic) (ic_menuItemId ic)"
proof (cases "List.find (\<lambda>item. c_userId item = ic_userId ic \<and> c_menuItemId item = ic_menuItemId ic)
             (map_values (cartItems s))")
  case None
  from assms have "cartItemIdCounter s \<notin> fst ` set (cartItems s)"
    by (auto simp: store_ok_def dest: keyed_less)
  with None show ?thesis
    by (simp add: addToCart_def Let_def map_set_fresh has_line_def map_values_def)
next
  case (Some existing)
  from assms have k: "keyed c_id (cartItemIdCounter s) (cartItems s)" by (simp add: store_ok_def)
  from find_values_get[OF k Some] have g: "map_get (cartItems s) (c_id existing) = Some existing" .
  from Some have p: "c_userId existing = ic_userId ic" "c_menuItemId existing = ic_menuItemId ic"
    by (auto simp: find_Some_iff)
  have "set (map (pair_of \<circ> snd) (cartItems (snd (addToCart s ic)))) = set (map (pair_of \<circ> snd) (cartItems s))"
    using Some g p by (simp add: addToCart_def updateCartItemQuantity_def Let_def map_set_same_image pair_of_def)
  moreover from g have "pair_of existing \<in> set (map (pair_of \<circ> snd) (cartItems s))"
    by (force simp: map_get_def dest: map_of_SomeD)
  ultimately show ?thesis
    using p by (force simp: has_line_def list_ex_iff map_values_def pair_of_def)
qed

lemma single_line:
  assumes "one_line_per_pair s" "has_line s userId menuItemId"
  shows "\<exists>l. lines_of s userId menuItemId = [l]"
proof -
  have d: "distinct (map pair_of (map_values (cartItems s)))"
    using assms(1) by (simp add: one_line_per_pair_def)
  have "length (filter (\<lambda>c. pair_of c = a) xs) \<le> 1" if "distinct (map pair_of xs)" for xs a
    using that by (induction xs) (auto simp: filter_empty_conv image_iff)
  from this[OF d, of "(userId, menuItemId)"]
  have "length (lines_of s userId menuItemId) \<le> 1"
    by (simp add: lines_of_def pair_of_def)
  moreover from assms(2) have "lines_of s userId menuItemId \<noteq> []"
    by (auto simp: lines_of_def has_line_def list_ex_iff filter_empty_conv)
  ultimately show ?thesis
    by (cases "lines_of s userId menuItemId") (auto simp: Suc_le_eq)
qed

subsection \<open>Counters never decrease\<close>

lemma counters_le_apply: "counters_le s (apply_operation s op)"
proof (cases op)
  case (AddToCart ic)
  then show ?thesis
    by (simp add: counters_le_def addToCart_def updateCartItemQuantity_def Let_def
          split: option.splits)
next
  case (EnhanceMenuItem i dp ni)
  then show ?thesis
    by (simp add: counters_le_def enhanceMenuItem_def Let_def split: option.splits)
qed (simp_all add: counters_le_def createUser_def createMenuItem_def updateMenuItem_def
       deleteMenuItem_def removeFromCart_def updateCartItemQuantity_def clearCart_def
       createOrder_def updateOrderStatus_def Let_def split_beta split: option.splits)

lemma counters_le_run: "counters_le s (run s ops)"
proof (induction ops arbitrary: s)
  case Nil
  show ?case by (simp add: counters_le_def)
next
  case (Cons op ops)
  from counters_le_apply[of s op] Cons[of "apply_operation s op"] show ?case
    by (simp add: counters_le_def)
qed

lemma keyed_ids:
  assumes "keyed f n m"
  shows "distinct (map f (map_values m)) \<and> (\<forall>v\<in>set (map_values m). 1 \<le> f v \<and> f v < n)"
proof -
  from assms have "map (f \<circ> snd) m = map fst m"
    by (auto simp: keyed_def list_all_iff)
  moreover from assms have "distinct (map fst m)" by (simp add: keyed_def)
  ultimately have "distinct (map (f \<circ> snd) m)" by (simp only:)
  then have "distinct (map f (map_values m))" by (simp add: map_values_def)
  moreover from assms have "\<forall>v\<in>set (map_values m). 1 \<le> f v \<and> f v < n"
    by (auto simp: keyed_def list_all_iff map_values_def)
  ultimately show ?thesis by simp
qed

subsection \<open>The sample store\<close>

lemma demo_ok: "store_ok demo_store"
  unfolding demo_store_def by (rule store_ok_run) (rule store_ok_new)

lemma demo_store_eq:
  "demo_store = \<lparr> users = [(1, admin), (2, alice)], menuItems = [(1, pizza)],
      cartItems = [(1, new_line 1 2 1 2), (2, new_line 2 1 1 1), (3, new_line 3 2 2 1)],
      orders = [(1, demo_order)],
      userIdCounter = 3, menuItemIdCounter = 2, cartItemIdCounter = 4, orderIdCounter = 2 \<rparr>"
  by (simp add: demo_store_def demo_ops_def MemStorage_new_def createUser_def
       createMenuItem_def addToCart_def createOrder_def Let_def map_values_def or_one_def
       or_null_def or_false_def present_or_null_def new_line_def admin_def alice_def pizza_def
       demo_order_def admin_insert_def alice_insert_def pizza_insert_def)

lemma demo_one_line: "one_line_per_pair demo_store"
  by (simp add: one_line_per_pair_def demo_store_eq map_values_def pair_of_def new_line_def)

section \<open>Adding to the cart\<close>

lemma addToCart_new:
  assumes "keyed c_id (cartItemIdCounter s) (cartItems s)" "\<not> has_line s userId menuItemId"
  shows "addToCart s \<lparr> ic_userId = userId, ic_menuItemId = menuItemId, ic_quantity = q \<rparr>
       = (Some (new_line (cartItemIdCounter s) userId menuItemId (or_one q)),
          s\<lparr> cartItemIdCounter := cartItemIdCounter s + 1,
             cartItems := cartItems s @ [(cartItemIdCounter s,
                 new_line (cartItemIdCounter s) userId menuItemId (or_one q))] \<rparr>)"
proof -
  have "List.find (\<lambda>item. c_userId item = userId \<and> c_menuItemId item = menuItemId)
          (map_values (cartItems s)) = None"
    using assms(2) by (auto simp: has_line_def find_None_iff list_ex_iff)
  then show ?thesis
    using keyed_less[OF assms(1)]
    by (simp add: addToCart_def Let_def map_set_fresh new_line_def)
qed

lemma addToCart_merge_last:
  assumes "n \<notin> fst ` set m"
    "\<not> list_ex (\<lambda>c. c_userId c = userId \<and> c_menuItemId c = menuItemId) (map_values m)"
    "cartItems s = m @ [(n, new_line n userId menuItemId q0)]"
  shows "addToCart s \<lparr> ic_userId = userId, ic_menuItemId = menuItemId, ic_quantity = q \<rparr>
       = (Some (new_line n userId menuItemId (q0 + or_one q)),
          s\<lparr> cartItems := m @ [(n, new_line n userId menuItemId (q0 + or_one q))] \<rparr>)"
proof -
  have "List.find (\<lambda>item. c_userId item = userId \<and> c_menuItemId item = menuItemId)
          (map_values m) = None"
    using assms(2) by (auto simp: find_None_iff list_ex_iff)
  from find_append_None[OF this]
  have f: "List.find (\<lambda>item. c_userId item = userId \<and> c_menuItemId item = menuItemId)
          (map_values (cartItems s)) = Some (new_line n userId menuItemId q0)"
    using assms(3) by (simp add: map_values_def new_line_def)
  have g: "map_get (cartItems s) n = Some (new_line n userId menuItemId q0)"
    using assms(1,3) by (simp add: map_get_append_fresh)
  show ?thesis
    using f g assms(1,3)
    by (simp add: addToCart_def updateCartItemQuantity_def Let_def map_set_append_last new_line_def)
qed

lemma addToCart_merge_length:
  assumes "store_ok s" "has_line s (ic_userId ic) (ic_menuItemId ic)"
  shows "length (cartItems (snd (addToCart s ic))) = length (cartItems s)"
proof -
  from assms(2) obtain existing where
    f: "List.find (\<lambda>item. c_userId item = ic_userId ic \<and> c_menuItemId item = ic_menuItemId ic)
          (map_values (cartItems s)) = Some existing"
    by (cases "List.find (\<lambda>item. c_userId item = ic_userId ic \<and> c_menuItemId item = ic_menuItemId ic)
          (map_values (cartItems s))") (auto simp: has_line_def find_None_iff list_ex_iff)
  from assms(1) have k: "keyed c_id (cartItemIdCounter s) (cartItems s)" by (simp add: store_ok_def)
  from find_values_get[OF k f] have g: "map_get (cartItems s) (c_id existing) = Some existing" .
  then have "c_id existing \<in> fst ` set (cartItems s)"
    by (force simp: map_get_def dest: map_of_SomeD)
  then have "length (map fst (map_set (cartItems s) (c_id existing) v)) = length (map fst (cartItems s))" for v
    by (simp only: keys_map_set if_True)
  then have "length (map_set (cartItems s) (c_id existing) v) = length (cartItems s)" for v
    by simp
  moreover from f have "c_userId existing = ic_userId ic" by (auto simp: find_Some_iff)
  ultimately show ?thesis
    using f g by (simp add: addToCart_def updateCartItemQuantity_def Let_def)
qed

text \<open>
  Claim C1. From a store that satisfies the invariants (every reachable store does:
  \<open>reachable_store_ok\<close>, \<open>reachable_one_line_per_pair\<close>), two calls of \<open>addToCart\<close> for
  the same user and menu item leave exactly one line for them, and the second call adds
  no line. When the cart held no line for them before the first call and both
  quantities are at least 1, that line carries the quantity \<open>q1 + q2\<close>: it is the line
  created by the first call under the counter's value, it is what the second call
  returns, and the lines that were there before are as they were.
\<close>

theorem addToCart_twice_merges:
  assumes "store_ok s" "one_line_per_pair s"
    and "addToCart s \<lparr> ic_userId = userId, ic_menuItemId = menuItemId, ic_quantity = Some q1 \<rparr>
           = (r1, s1)"
    and "addToCart s1 \<lparr> ic_userId = userId, ic_menuItemId = menuItemId, ic_quantity = Some q2 \<rparr>
           = (r2, s2)"
  shows "(\<exists>l. lines_of s2 userId menuItemId = [l])
       \<and> length (cartItems s2) = length (cartItems s1)
       \<and> (\<not> has_line s userId menuItemId \<and> 1 \<le> q1 \<and> 1 \<le> q2 \<longrightarrow>
            lines_of s2 userId menuItemId
              = [new_line (cartItemIdCounter s) userId menuItemId (q1 + q2)]
          \<and> r2 = Some (new_line (cartItemIdCounter s) userId menuItemId (q1 + q2))
          \<and> cartItems s2
              = cartItems s @ [(cartItemIdCounter s,
                                new_line (cartItemIdCounter s) userId menuItemId (q1 + q2))])"
proof -
  let ?n = "cartItemIdCounter s"
  let ?ic1 = "\<lparr> ic_userId = userId, ic_menuItemId = menuItemId, ic_quantity = Some q1 \<rparr>"
  let ?ic2 = "\<lparr> ic_userId = userId, ic_menuItemId = menuItemId, ic_quantity = Some q2 \<rparr>"
  from assms(3,4) have s1: "s1 = snd (addToCart s ?ic1)" and s2: "s2 = snd (addToCart s1 ?ic2)"
    and r2: "r2 = fst (addToCart s1 ?ic2)"
    by simp_all
  have ok1: "store_ok s1" unfolding s1 using assms(1) by (rule store_ok_addToCart)
  have one1: "one_line_per_pair s1" unfolding s1 using assms(1,2) by (rule one_line_addToCart)
  have has1: "has_line s1 userId menuItemId"
    unfolding s1 using has_line_addToCart[OF assms(1), of ?ic1] by simp
  have one2: "one_line_per_pair s2" unfolding s2 using ok1 one1 by (rule one_line_addToCart)
  have has2: "has_line s2 userId menuItemId"
    unfolding s2 using has_line_addToCart[OF ok1, of ?ic2] by simp
  from single_line[OF one2 has2] have single: "\<exists>l. lines_of s2 userId menuItemId = [l]" .
  have len: "length (cartItems s2) = length (cartItems s1)"
    unfolding s2 using addToCart_merge_length[OF ok1, of ?ic2] has1 by simp
  have fresh: "lines_of s2 userId menuItemId = [new_line ?n userId menuItemId (q1 + q2)]
          \<and> r2 = Some (new_line ?n userId menuItemId (q1 + q2))
          \<and> cartItems s2 = cartItems s @ [(?n, new_line ?n userId menuItemId (q1 + q2))]"
    if no: "\<not> has_line s userId menuItemId" and q1: "1 \<le> q1" and q2: "1 \<le> q2"
  proof -
    from assms(1) have k: "keyed c_id ?n (cartItems s)" by (simp add: store_ok_def)
    from q1 q2 have q: "or_one (Some q1) = q1" "or_one (Some q2) = q2" by (simp_all add: or_one_def)
    have none: "filter (\<lambda>c. c_userId c = userId \<and> c_menuItemId c = menuItemId)
                  (map_values (cartItems s)) = []"
      using no by (auto simp: has_line_def list_ex_iff filter_empty_conv)
    have c1: "cartItems s1 = cartItems s @ [(?n, new_line ?n userId menuItemId q1)]"
      unfolding s1 using addToCart_new[OF k no, of "Some q1"] q by simp
    with keyed_less[OF k] no
    have second: "addToCart s1 ?ic2
       = (Some (new_line ?n userId menuItemId (q1 + q2)),
          s1\<lparr> cartItems := cartItems s @ [(?n, new_line ?n userId menuItemId (q1 + q2))] \<rparr>)"
      using addToCart_merge_last[of ?n "cartItems s" userId menuItemId s1 q1 "Some q2"] q
      by (simp add: has_line_def)
    show ?thesis
      unfolding s2 r2 using none
      by (simp add: second lines_of_def map_values_def new_line_def)
  qed
  from single len fresh show ?thesis by blast
qed

theorem addToCart_twice_merges_witness:
  "store_ok demo_store \<and> one_line_per_pair demo_store \<and> \<not> has_line demo_store 1 2
   \<and> lines_of (snd (addToCart
          (snd (addToCart demo_store \<lparr> ic_userId = 1, ic_menuItemId = 2, ic_quantity = Some 2 \<rparr>))
          \<lparr> ic_userId = 1, ic_menuItemId = 2, ic_quantity = Some 3 \<rparr>)) 1 2
       = [new_line 4 1 2 5]"
proof -
  have no: "\<not> has_line demo_store 1 2"
    by (simp add: has_line_def demo_store_eq map_values_def new_line_def)
  have n: "cartItemIdCounter demo_store = 4" by (simp add: demo_store_eq)
  from addToCart_twice_merges[OF demo_ok demo_one_line surjective_pairing surjective_pairing, of 1 2 2 3]
    no n demo_ok demo_one_line
  show ?thesis by simp
qed

section \<open>Clearing a cart\<close>

lemma clearCart_filter:
  assumes "keyed c_id n (cartItems s)"
  shows "clearCart s userId
         = (True, s\<lparr> cartItems := filter (\<lambda>(k, c). c_userId c \<noteq> userId) (cartItems s) \<rparr>)"
proof -
  have d: "distinct (map fst (cartItems s))" and k: "\<forall>(k, v)\<in>set (cartItems s). c_id v = k"
    using assms by (auto simp: keyed_def list_all_iff)
  have "filter (\<lambda>p. fst p \<notin> c_id ` set (getCartItems s userId)) (cartItems s)
        = filter (\<lambda>(k, c). c_userId c \<noteq> userId) (cartItems s)"
  proof (rule filter_cong[OF refl])
    fix p assume p: "p \<in> set (cartItems s)"
    obtain a b where ab: "p = (a, b)" by (cases p)
    with p k have id: "c_id b = a" by auto
    have "a \<in> c_id ` set (getCartItems s userId) \<longleftrightarrow> c_userId b = userId"
    proof
      assume "a \<in> c_id ` set (getCartItems s userId)"
      then obtain k' c' where c': "(k', c') \<in> set (cartItems s)" "c_userId c' = userId" "c_id c' = a"
        by (auto simp: getCartItems_def map_values_def)
      with k have "k' = a" by auto
      with c' p ab d have "c' = b" by (auto dest: eq_key_imp_eq_value)
      with c' show "c_userId b = userId" by simp
    next
      assume "c_userId b = userId"
      with p ab id show "a \<in> c_id ` set (getCartItems s userId)"
        by (force simp: getCartItems_def map_values_def)
    qed
    with ab show "(fst p \<notin> c_id ` set (getCartItems s userId))
        = (case p of (k, c) \<Rightarrow> c_userId c \<noteq> userId)"
      by simp
  qed
  then show ?thesis by (simp add: clearCart_def Let_def delete_each_filter)
qed

lemma getCartItems_after_clear:
  "getCartItems (s\<lparr> cartItems := filter (\<lambda>(k, c). c_userId c \<noteq> userId) (cartItems s) \<rparr>) u
   = (if u = userId then [] else getCartItems s u)"
  by (auto simp: getCartItems_def map_values_def filter_map comp_def filter_empty_conv
           intro!: arg_cong[where f="map snd"] filter_cong)

text \<open>
  Claim C10. In a store that satisfies the table invariant (as every reachable store
  does, \<open>reachable_store_ok\<close>), \<open>clearCart\<close> for a user returns \<open>true\<close> and removes exactly
  the cart lines of that user: the remaining lines are the others, in their order; the
  cart of every other user reads as before; users, menu items, orders and the four
  counters are unchanged. Nothing is assumed about the user's cart, so the result is
  \<open>true\<close> for an empty cart too.
\<close>

theorem clearCart_frame:
  assumes "store_ok s"
  shows "fst (clearCart s userId) = True
       \<and> cartItems (snd (clearCart s userId))
           = filter (\<lambda>(k, c). c_userId c \<noteq> userId) (cartItems s)
       \<and> getCartItems (snd (clearCart s userId)) userId = []
       \<and> (\<forall>other. other \<noteq> userId \<longrightarrow>
             getCartItems (snd (clearCart s userId)) other = getCartItems s other)
       \<and> users (snd (clearCart s userId)) = users s
       \<and> menuItems (snd (clearCart s userId)) = menuItems s
       \<and> orders (snd (clearCart s userId)) = orders s
       \<and> userIdCounter (snd (clearCart s userId)) = userIdCounter s
       \<and> menuItemIdCounter (snd (clearCart s userId)) = menuItemIdCounter s
       \<and> cartItemIdCounter (snd (clearCart s userId)) = cartItemIdCounter s
       \<and> orderIdCounter (snd (clearCart s userId)) = orderIdCounter s"
proof -
  from assms have "keyed c_id (cartItemIdCounter s) (cartItems s)" by (simp add: store_ok_def)
  from clearCart_filter[OF this, of userId] show ?thesis
    by (simp add: getCartItems_after_clear)
qed

theorem clearCart_frame_witness:
  "store_ok demo_store
   \<and> fst (clearCart demo_store 2) = True
   \<and> cartItems (snd (clearCart demo_store 2)) = [(2, new_line 2 1 1 1)]
   \<and> getCartItems (snd (clearCart demo_store 2)) 1 = [new_line 2 1 1 1]
   \<and> fst (clearCart demo_store 7) = True
   \<and> cartItems (snd (clearCart demo_store 7)) = cartItems demo_store"
proof -
  have ok: "store_ok demo_store" by (rule demo_ok)
  have "getCartItems demo_store 1 = [new_line 2 1 1 1]"
    by (simp add: getCartItems_def map_values_def demo_store_eq new_line_def)
  with clearCart_frame[OF ok, of 2] clearCart_frame[OF ok, of 7] ok show ?thesis
    by (simp add: demo_store_eq new_line_def)
qed

section \<open>Removing and updating a line that is not the caller's\<close>

lemma as_int_number: "as_int v = Some q \<Longrightarrow> as_number v = Some (of_int q)"
  by (auto simp: as_int_def as_number_def split: option.splits json.splits if_splits)

text \<open>
  Claim C5. When the cart has no line under the given id, or the line under it belongs
  to another user, \<open>removeFromCart\<close> returns \<open>false\<close> and \<open>updateCartItemQuantity\<close> returns
  \<open>undefined\<close>, for every quantity, and both leave the whole store as it was. The
  handlers turn these results into 404: \<open>DELETE /api/cart/:id\<close> always, \<open>PUT /api/cart/:id\<close>
  for a quantity that passes its own check (at least 1).
\<close>

theorem cart_line_not_owned:
  assumes "map_get (cartItems s) lineId = None
         \<or> (\<exists>l. map_get (cartItems s) lineId = Some l \<and> c_userId l \<noteq> userId)"
  shows "removeFromCart s lineId userId = (False, s)
       \<and> updateCartItemQuantity s lineId userId q = (None, s)
       \<and> (req_isAuthenticated req \<and> req_user req = Some u \<and> u_id u = userId \<longrightarrow>
            delete_cart s req lineId = ((404, Message ''Cart item not found''), s)
          \<and> (as_int (map_of (req_body req) ''quantity'') = Some q \<and> 1 \<le> q \<longrightarrow>
               put_cart s req lineId = Some ((404, Message ''Cart item not found''), s)))"
proof -
  have r: "removeFromCart s lineId userId = (False, s)"
    using assms by (auto simp: removeFromCart_def)
  have u: "updateCartItemQuantity s lineId userId q = (None, s)"
    using assms by (auto simp: updateCartItemQuantity_def)
  have d: "delete_cart s req lineId = ((404, Message ''Cart item not found''), s)"
    if "req_isAuthenticated req" "req_user req = Some u" "u_id u = userId"
    using that r by (simp add: delete_cart_def)
  have p: "put_cart s req lineId = Some ((404, Message ''Cart item not found''), s)"
    if "req_isAuthenticated req" "req_user req = Some u" "u_id u = userId"
       "as_int (map_of (req_body req) ''quantity'') = Some q" "1 \<le> q"
    using that u as_int_number[OF that(4)] by (simp add: put_cart_def)
  show ?thesis
    using r u d p by blast
qed

theorem cart_line_not_owned_witness:
  "map_get (cartItems demo_store) 1 = Some (new_line 1 2 1 2)
   \<and> c_userId (new_line 1 2 1 2) \<noteq> u_id admin
   \<and> removeFromCart demo_store 1 (u_id admin) = (False, demo_store)
   \<and> updateCartItemQuantity demo_store 1 (u_id admin) 5 = (None, demo_store)
   \<and> delete_cart demo_store (request_of admin [(''quantity'', JNum 5)]) 1
       = ((404, Message ''Cart item not found''), demo_store)
   \<and> put_cart demo_store (request_of admin [(''quantity'', JNum 5)]) 1
       = Some ((404, Message ''Cart item not found''), demo_store)
   \<and> map_get (cartItems demo_store) 9 = None
   \<and> removeFromCart demo_store 9 (u_id alice) = (False, demo_store)"
proof -
  have l: "map_get (cartItems demo_store) 1 = Some (new_line 1 2 1 2)"
    and n: "map_get (cartItems demo_store) 9 = None"
    by (simp_all add: map_get_def demo_store_eq)
  have o: "c_userId (new_line 1 2 1 2) \<noteq> u_id admin"
    by (simp add: new_line_def admin_def)
  have q: "as_int (map_of (req_body (request_of admin [(''quantity'', JNum 5)])) ''quantity'') = Some 5"
    by (simp add: request_of_def as_int_def)
  from l o have h1: "map_get (cartItems demo_store) 1 = None
      \<or> (\<exists>l. map_get (cartItems demo_store) 1 = Some l \<and> c_userId l \<noteq> u_id admin)"
    by simp
  from n have h2: "map_get (cartItems demo_store) 9 = None
      \<or> (\<exists>l. map_get (cartItems demo_store) 9 = Some l \<and> c_userId l \<noteq> u_id alice)"
    by simp
  from cart_line_not_owned[OF h1, of 5 "request_of admin [(''quantity'', JNum 5)]" admin]
    cart_line_not_owned[OF h2, of 5 "request_of alice []" alice] l n o q
  show ?thesis by (simp add: request_of_def)
qed

section \<open>Order status\<close>



section \<open>Creating an order\<close>

lemma insertOrderSchema_parse_status:
  "insertOrderSchema_parse ((''status'', v) # body) userId = insertOrderSchema_parse body userId"
  by (simp add: insertOrderSchema_parse_def)

lemma insertOrderSchema_parse_Inr:
  assumes "insertOrderSchema_parse body userId = Inr io"
  shows "io_userId io = userId
       \<and> map_of body ''items'' = Some (io_items io)
       \<and> map_of body ''total'' = Some (JNum (io_total io))
       \<and> nullable_text (map_of body ''address'') = Some (io_address io)
       \<and> nullable_text (map_of body ''paymentId'') = Some (io_paymentId io)"
  using assms
  by (auto simp: insertOrderSchema_parse_def Let_def as_number_def
           split: if_splits option.splits json.splits)

lemma createOrder_result:
  "fst (createOrder s now io)
     = \<lparr> o_id = orderIdCounter s, o_userId = io_userId io, o_items = io_items io,
         o_status = ''pending'', o_total = io_total io, o_createdAt = Some now,
         o_address = or_null (io_address io), o_paymentId = or_null (io_paymentId io) \<rparr>"
  "map_get (orders (snd (createOrder s now io))) (orderIdCounter s)
     = Some (fst (createOrder s now io))"
  by (simp_all add: createOrder_def Let_def map_get_map_set)

lemma post_orders_created:
  assumes "post_orders s now req = ((201, sent), s')"
  shows "\<exists>user data. req_user req = Some user
           \<and> insertOrderSchema_parse (req_body req) (u_id user) = Inr data
           \<and> sent = OrderJson (fst (createOrder s now data))
           \<and> s' = snd (clearCart (snd (createOrder s now data)) (u_id user))"
proof -
  from assms obtain user where user: "req_isAuthenticated req" "req_user req = Some user"
    by (auto simp: post_orders_def split: if_splits option.splits)
  from assms user obtain data
    where data: "insertOrderSchema_parse (req_body req) (u_id user) = Inr data"
    by (auto simp: post_orders_def split: sum.splits ZodError.splits)
  from assms user data show ?thesis
    by (auto simp: post_orders_def split_beta Let_def)
qed

text \<open>
  Claim C2. The order that \<open>createOrder\<close> builds has the status \<open>pending\<close>, the counter's
  value as id, and the user, items and total of its argument; the address and the
  payment id are those of the argument, with an absent, null or empty one stored as
  null. The order is stored under its id. In \<open>POST /api/orders\<close> a \<open>status\<close> property of
  the body changes nothing (the response and the store are those of the body without
  it), and every 201 response carries an order with the status \<open>pending\<close>, the session
  user's id, and the items, total, address and payment id of the body.
\<close>

theorem createOrder_pending:
  "o_status (fst (createOrder s now io)) = ''pending''
 \<and> o_id (fst (createOrder s now io)) = orderIdCounter s
 \<and> o_userId (fst (createOrder s now io)) = io_userId io
 \<and> o_items (fst (createOrder s now io)) = io_items io
 \<and> o_total (fst (createOrder s now io)) = io_total io
 \<and> o_address (fst (createOrder s now io)) = or_null (io_address io)
 \<and> o_paymentId (fst (createOrder s now io)) = or_null (io_paymentId io)
 \<and> map_get (orders (snd (createOrder s now io))) (orderIdCounter s)
     = Some (fst (createOrder s now io))
 \<and> post_orders s now (req\<lparr> req_body := (''status'', v) # body \<rparr>)
     = post_orders s now (req\<lparr> req_body := body \<rparr>)
 \<and> (post_orders s now req = ((201, sent), s') \<longrightarrow>
      (\<exists>user order. req_user req = Some user \<and> sent = OrderJson order
         \<and> o_status order = ''pending''
         \<and> o_userId order = u_id user
         \<and> map_of (req_body req) ''items'' = Some (o_items order)
         \<and> map_of (req_body req) ''total'' = Some (JNum (o_total order))
         \<and> (\<exists>address. nullable_text (map_of (req_body req) ''address'') = Some address
                \<and> o_address order = or_null address)
         \<and> (\<exists>paymentId. nullable_text (map_of (req_body req) ''paymentId'') = Some paymentId
                \<and> o_paymentId order = or_null paymentId)
         \<and> map_get (orders s') (o_id order) = Some order))"
proof -
  have regardless: "post_orders s now (req\<lparr> req_body := (''status'', v) # body \<rparr>)
     = post_orders s now (req\<lparr> req_body := body \<rparr>)"
    by (simp add: post_orders_def insertOrderSchema_parse_status split: option.split)
  have route: "\<exists>user order. req_user req = Some user \<and> sent = OrderJson order
         \<and> o_status order = ''pending''
         \<and> o_userId order = u_id user
         \<and> map_of (req_body req) ''items'' = Some (o_items order)
         \<and> map_of (req_body req) ''total'' = Some (JNum (o_total order))
         \<and> (\<exists>address. nullable_text (map_of (req_body req) ''address'') = Some address
                \<and> o_address order = or_null address)
         \<and> (\<exists>paymentId. nullable_text (map_of (req_body req) ''paymentId'') = Some paymentId
                \<and> o_paymentId order = or_null paymentId)
         \<and> map_get (orders s') (o_id order) = Some order"
    if post: "post_orders s now req = ((201, sent), s')"
  proof -
    from post_orders_created[OF post] obtain user data where
      user: "req_user req = Some user"
      and data: "insertOrderSchema_parse (req_body req) (u_id user) = Inr data"
      and sent: "sent = OrderJson (fst (createOrder s now data))"
      and s': "s' = snd (clearCart (snd (createOrder s now data)) (u_id user))"
      by blast
    have "orders s' = orders (snd (createOrder s now data))"
      unfolding s' by (simp add: clearCart_def Let_def)
    with createOrder_result[of s now data]
    have "map_get (orders s') (o_id (fst (createOrder s now data)))
            = Some (fst (createOrder s now data))"
      by simp
    with insertOrderSchema_parse_Inr[OF data] createOrder_result(1)[of s now data] user sent
    show ?thesis by simp
  qed
  show ?thesis
    using createOrder_result[of s now io] regardless route by simp
qed

theorem createOrder_pending_witness:
  "map_of order_body ''status'' = Some (JStr ''delivered'')
   \<and> fst (post_orders demo_store 3000 (request_of alice order_body))
       = (201, OrderJson \<lparr> o_id = 2, o_userId = 2, o_items = demo_items,
            o_status = ''pending'', o_total = 28.97, o_createdAt = Some 3000,
            o_address = Some ''1 Main St'', o_paymentId = None \<rparr>)"
proof -
  have status: "map_of order_body ''status'' = Some (JStr ''delivered'')"
    by (simp add: order_body_def)
  have sent: "fst (post_orders demo_store 3000 (request_of alice order_body))
     = (201, OrderJson \<lparr> o_id = 2, o_userId = 2, o_items = demo_items,
          o_status = ''pending'', o_total = 28.97, o_createdAt = Some 3000,
          o_address = Some ''1 Main St'', o_paymentId = None \<rparr>)"
    by (simp add: post_orders_def request_of_def order_body_def insertOrderSchema_parse_def
          as_number_def nullable_text_def createOrder_def clearCart_def Let_def or_null_def
          alice_def demo_store_eq split_beta)
  then have post: "post_orders demo_store 3000 (request_of alice order_body)
     = ((201, snd (fst (post_orders demo_store 3000 (request_of alice order_body)))),
        snd (post_orders demo_store 3000 (request_of alice order_body)))"
    by (simp add: prod_eq_iff)
  from createOrder_pending[where s = demo_store and now = 3000
      and req = "request_of alice order_body"
      and sent = "snd (fst (post_orders demo_store 3000 (request_of alice order_body)))"
      and s' = "snd (post_orders demo_store 3000 (request_of alice order_body))"] post
  have "\<exists>order. snd (fst (post_orders demo_store 3000 (request_of alice order_body)))
           = OrderJson order \<and> o_status order = ''pending''"
    by blast
  with status sent show ?thesis by simp
qed

section \<open>The cart after an order\<close>

lemma cart_empty_after_clear:
  assumes "keyed c_id n (cartItems s)"
  shows "getCartItemsWithDetails (snd (clearCart s userId)) userId = []"
  using clearCart_filter[OF assms, of userId]
  by (simp add: getCartItemsWithDetails_def getCartItems_after_clear)

text \<open>
  Claim C6. In a store that satisfies the table invariant, \<open>createOrder\<close> followed by
  \<open>clearCart\<close> for a user leaves \<open>getCartItemsWithDetails\<close> of that user empty; and after
  a \<open>POST /api/orders\<close> that answered 201, the cart of the session user is empty and
  \<open>GET /api/cart\<close> sends the empty array.
\<close>

theorem cart_empty_after_order:
  assumes "store_ok s"
  shows "getCartItemsWithDetails (snd (clearCart (snd (createOrder s now io)) userId)) userId = []
       \<and> (post_orders s now req = ((201, sent), s') \<longrightarrow>
            (\<exists>user. req_user req = Some user
               \<and> getCartItemsWithDetails s' (u_id user) = []
               \<and> get_cart s' req = (200, CartJson [])))"
proof -
  have k: "keyed c_id (cartItemIdCounter (snd (createOrder s now data)))
             (cartItems (snd (createOrder s now data)))" for data
    using store_ok_createOrder[OF assms, of now data] by (simp add: store_ok_def)
  have route: "\<exists>user. req_user req = Some user
               \<and> getCartItemsWithDetails s' (u_id user) = []
               \<and> get_cart s' req = (200, CartJson [])"
    if post: "post_orders s now req = ((201, sent), s')"
  proof -
    from post obtain user0 where auth: "req_isAuthenticated req" "req_user req = Some user0"
      by (auto simp: post_orders_def split: if_splits option.splits)
    from post_orders_created[OF post] auth obtain data where
      s': "s' = snd (clearCart (snd (createOrder s now data)) (u_id user0))"
      by auto
    with cart_empty_after_clear[OF k, of data "u_id user0"]
    have "getCartItemsWithDetails s' (u_id user0) = []" by simp
    with auth show ?thesis by (simp add: get_cart_def)
  qed
  from cart_empty_after_clear[OF k] route show ?thesis by blast
qed

theorem cart_empty_after_order_witness:
  "store_ok demo_store
   \<and> getCartItemsWithDetails demo_store 2
       = [(new_line 1 2 1 2, Some pizza), (new_line 3 2 2 1, None)]
   \<and> fst (fst (post_orders demo_store 3000 (request_of alice order_body))) = 201
   \<and> getCartItemsWithDetails
        (snd (post_orders demo_store 3000 (request_of alice order_body))) 2 = []"
proof -
  have before: "getCartItemsWithDetails demo_store 2
       = [(new_line 1 2 1 2, Some pizza), (new_line 3 2 2 1, None)]"
    by (simp add: getCartItemsWithDetails_def getCartItems_def getMenuItemById_def map_get_def
          map_values_def demo_store_eq new_line_def)
  have code: "fst (fst (post_orders demo_store 3000 (request_of alice order_body))) = 201"
    by (simp add: post_orders_def request_of_def order_body_def insertOrderSchema_parse_def
          as_number_def nullable_text_def Let_def split_beta)
  then have post: "post_orders demo_store 3000 (request_of alice order_body)
     = ((201, snd (fst (post_orders demo_store 3000 (request_of alice order_body)))),
        snd (post_orders demo_store 3000 (request_of alice order_body)))"
    by (simp add: prod_eq_iff)
  have user: "req_user (request_of alice order_body) = Some alice" "u_id alice = 2"
    by (simp_all add: request_of_def alice_def)
  from cart_empty_after_order[OF demo_ok, where now = 3000
      and req = "request_of alice order_body"
      and sent = "snd (fst (post_orders demo_store 3000 (request_of alice order_body)))"
      and s' = "snd (post_orders demo_store 3000 (request_of alice order_body))"] post user
  have "getCartItemsWithDetails
        (snd (post_orders demo_store 3000 (request_of alice order_body))) 2 = []"
    by auto
  with demo_ok before code show ?thesis by simp
qed

section \<open>Quantities below 1\<close>

text \<open>
  Claim C3. The claim asks that adding to the cart with a quantity below 1 fails with
  400 and changes no line. \<open>POST /api/cart\<close> validates with \<open>insertCartItemSchema\<close> only,
  which has no lower bound, and \<open>addToCart\<close> has none either: on the empty store the
  request of alice for menu item 1 with quantity \<open>-2\<close> is answered 201 and creates a line
  with quantity \<open>-2\<close>; with quantity 0 (falsy, so replaced by 1) it is answered 201 and
  creates a line with quantity 1. The sibling handler \<open>PUT /api/cart/:id\<close> rejects the
  same quantity with 400.
\<close>

theorem post_cart_accepts_quantity_below_one:
  "post_cart MemStorage_new (request_of alice [(''menuItemId'', JNum 1), (''quantity'', JNum (- 2))])
     = ((201, CartItemJson (Some (new_line 1 2 1 (- 2)))),
        MemStorage_new\<lparr> cartItemIdCounter := 2, cartItems := [(1, new_line 1 2 1 (- 2))] \<rparr>)
 \<and> post_cart MemStorage_new (request_of alice [(''menuItemId'', JNum 1), (''quantity'', JNum 0)])
     = ((201, CartItemJson (Some (new_line 1 2 1 1))),
        MemStorage_new\<lparr> cartItemIdCounter := 2, cartItems := [(1, new_line 1 2 1 1)] \<rparr>)
 \<and> put_cart demo_store (request_of alice [(''quantity'', JNum (- 2))]) 1
     = Some ((400, Message ''Quantity must be a positive number''), demo_store)"
  by (simp add: post_cart_def put_cart_def request_of_def insertCartItemSchema_parse_def
        as_int_def as_number_def addToCart_def Let_def or_one_def alice_def MemStorage_new_def
        map_values_def new_line_def)

section \<open>Identifiers\<close>

lemma createUser_counter:
  "u_id (fst (createUser s iu)) = userIdCounter s
    \<and> userIdCounter (snd (createUser s iu)) = userIdCounter s + 1
    \<and> menuItemIdCounter (snd (createUser s iu)) = menuItemIdCounter s
    \<and> cartItemIdCounter (snd (createUser s iu)) = cartItemIdCounter s
    \<and> orderIdCounter (snd (createUser s iu)) = orderIdCounter s"
  by (simp add: createUser_def Let_def)

lemma createMenuItem_counter:
  "m_id (fst (createMenuItem s now im)) = menuItemIdCounter s
    \<and> menuItemIdCounter (snd (createMenuItem s now im)) = menuItemIdCounter s + 1
    \<and> userIdCounter (snd (createMenuItem s now im)) = userIdCounter s
    \<and> cartItemIdCounter (snd (createMenuItem s now im)) = cartItemIdCounter s
    \<and> orderIdCounter (snd (createMenuItem s now im)) = orderIdCounter s"
  by (simp add: createMenuItem_def Let_def)

lemma createOrder_counter:
  "o_id (fst (createOrder s now io)) = orderIdCounter s
    \<and> orderIdCounter (snd (createOrder s now io)) = orderIdCounter s + 1
    \<and> userIdCounter (snd (createOrder s now io)) = userIdCounter s
    \<and> menuItemIdCounter (snd (createOrder s now io)) = menuItemIdCounter s
    \<and> cartItemIdCounter (snd (createOrder s now io)) = cartItemIdCounter s"
  by (simp add: createOrder_def Let_def)

lemma addToCart_counter:
  assumes "\<not> has_line s (ic_userId ic) (ic_menuItemId ic)"
  shows "(\<exists>l. fst (addToCart s ic) = Some l \<and> c_id l = cartItemIdCounter s)
    \<and> cartItemIdCounter (snd (addToCart s ic)) = cartItemIdCounter s + 1
    \<and> userIdCounter (snd (addToCart s ic)) = userIdCounter s
    \<and> menuItemIdCounter (snd (addToCart s ic)) = menuItemIdCounter s
    \<and> orderIdCounter (snd (addToCart s ic)) = orderIdCounter s"
proof -
  from assms
  have "List.find (\<lambda>item. c_userId item = ic_userId ic \<and> c_menuItemId item = ic_menuItemId ic)
          (map_values (cartItems s)) = None"
    by (auto simp: has_line_def find_None_iff list_ex_iff)
  then show ?thesis by (simp add: addToCart_def Let_def)
qed

text \<open>
  Claim C7. The four counters of a new store are 1. Each creating operation
  (\<open>createUser\<close>, \<open>createMenuItem\<close>, \<open>createOrder\<close>, and \<open>addToCart\<close> when it creates a line)
  gives the new entity the current value of its table's counter, adds one to that
  counter and leaves the other three alone. Whatever operations run in between, a later
  creation in the same table gets a greater id. In every reachable store the ids within
  a table are pairwise distinct and below the table's counter.
\<close>

theorem ids_from_counters:
  "userIdCounter MemStorage_new = 1 \<and> menuItemIdCounter MemStorage_new = 1
 \<and> cartItemIdCounter MemStorage_new = 1 \<and> orderIdCounter MemStorage_new = 1
 \<and> (u_id (fst (createUser s iu)) = userIdCounter s
    \<and> userIdCounter (snd (createUser s iu)) = userIdCounter s + 1
    \<and> menuItemIdCounter (snd (createUser s iu)) = menuItemIdCounter s
    \<and> cartItemIdCounter (snd (createUser s iu)) = cartItemIdCounter s
    \<and> orderIdCounter (snd (createUser s iu)) = orderIdCounter s)
 \<and> (m_id (fst (createMenuItem s now im)) = menuItemIdCounter s
    \<and> menuItemIdCounter (snd (createMenuItem s now im)) = menuItemIdCounter s + 1
    \<and> userIdCounter (snd (createMenuItem s now im)) = userIdCounter s
    \<and> cartItemIdCounter (snd (createMenuItem s now im)) = cartItemIdCounter s
    \<and> orderIdCounter (snd (createMenuItem s now im)) = orderIdCounter s)
 \<and> (\<not> has_line s (ic_userId ic) (ic_menuItemId ic) \<longrightarrow>
      (\<exists>l. fst (addToCart s ic) = Some l \<and> c_id l = cartItemIdCounter s)
    \<and> cartItemIdCounter (snd (addToCart s ic)) = cartItemIdCounter s + 1
    \<and> userIdCounter (snd (addToCart s ic)) = userIdCounter s
    \<and> menuItemIdCounter (snd (addToCart s ic)) = menuItemIdCounter s
    \<and> orderIdCounter (snd (addToCart s ic)) = orderIdCounter s)
 \<and> (o_id (fst (createOrder s now io)) = orderIdCounter s
    \<and> orderIdCounter (snd (createOrder s now io)) = orderIdCounter s + 1
    \<and> userIdCounter (snd (createOrder s now io)) = userIdCounter s
    \<and> menuItemIdCounter (snd (createOrder s now io)) = menuItemIdCounter s
    \<and> cartItemIdCounter (snd (createOrder s now io)) = cartItemIdCounter s)
 \<and> u_id (fst (createUser s iu)) < u_id (fst (createUser (run (snd (createUser s iu)) ops) iu'))
 \<and> m_id (fst (createMenuItem s now im))
      < m_id (fst (createMenuItem (run (snd (createMenuItem s now im)) ops) now' im'))
 \<and> o_id (fst (createOrder s now io))
      < o_id (fst (createOrder (run (snd (createOrder s now io)) ops) now' io'))
 \<and> (\<not> has_line s (ic_userId ic) (ic_menuItemId ic)
      \<and> \<not> has_line (run (snd (addToCart s ic)) ops) (ic_userId ic') (ic_menuItemId ic') \<longrightarrow>
      (\<exists>l l'. fst (addToCart s ic) = Some l
          \<and> fst (addToCart (run (snd (addToCart s ic)) ops) ic') = Some l'
          \<and> c_id l < c_id l'))
 \<and> (reachable s \<longrightarrow>
      store_ok s
    \<and> distinct (map u_id (map_values (users s)))
    \<and> distinct (map m_id (map_values (menuItems s)))
    \<and> distinct (map c_id (map_values (cartItems s)))
    \<and> distinct (map o_id (map_values (orders s)))
    \<and> (\<forall>u\<in>set (map_values (users s)). u_id u < userIdCounter s)
    \<and> (\<forall>m\<in>set (map_values (menuItems s)). m_id m < menuItemIdCounter s)
    \<and> (\<forall>c\<in>set (map_values (cartItems s)). c_id c < cartItemIdCounter s)
    \<and> (\<forall>ord\<in>set (map_values (orders s)). o_id ord < orderIdCounter s))"
proof -
  have init: "userIdCounter MemStorage_new = 1 \<and> menuItemIdCounter MemStorage_new = 1
     \<and> cartItemIdCounter MemStorage_new = 1 \<and> orderIdCounter MemStorage_new = 1"
    by (simp add: MemStorage_new_def)
  have later_user:
    "u_id (fst (createUser s iu)) < u_id (fst (createUser (run (snd (createUser s iu)) ops) iu'))"
    using counters_le_run[of "snd (createUser s iu)" ops] createUser_counter[of s iu]
      createUser_counter[of "run (snd (createUser s iu)) ops" iu']
    by (simp add: counters_le_def)
  have later_menu: "m_id (fst (createMenuItem s now im))
      < m_id (fst (createMenuItem (run (snd (createMenuItem s now im)) ops) now' im'))"
    using counters_le_run[of "snd (createMenuItem s now im)" ops] createMenuItem_counter[of s now im]
      createMenuItem_counter[of "run (snd (createMenuItem s now im)) ops" now' im']
    by (simp add: counters_le_def)
  have later_order: "o_id (fst (createOrder s now io))
      < o_id (fst (createOrder (run (snd (createOrder s now io)) ops) now' io'))"
    using counters_le_run[of "snd (createOrder s now io)" ops] createOrder_counter[of s now io]
      createOrder_counter[of "run (snd (createOrder s now io)) ops" now' io']
    by (simp add: counters_le_def)
  have later_cart: "\<exists>l l'. fst (addToCart s ic) = Some l
          \<and> fst (addToCart (run (snd (addToCart s ic)) ops) ic') = Some l'
          \<and> c_id l < c_id l'"
    if a: "\<not> has_line s (ic_userId ic) (ic_menuItemId ic)"
    and b: "\<not> has_line (run (snd (addToCart s ic)) ops) (ic_userId ic') (ic_menuItemId ic')"
  proof -
    from addToCart_counter[OF a] obtain l where
      l: "fst (addToCart s ic) = Some l" "c_id l = cartItemIdCounter s"
      "cartItemIdCounter (snd (addToCart s ic)) = cartItemIdCounter s + 1" by blast
    from addToCart_counter[OF b] obtain l' where
      l': "fst (addToCart (run (snd (addToCart s ic)) ops) ic') = Some l'"
      "c_id l' = cartItemIdCounter (run (snd (addToCart s ic)) ops)" by blast
    from counters_le_run[of "snd (addToCart s ic)" ops] l l' have "c_id l < c_id l'"
      by (simp add: counters_le_def)
    with l l' show ?thesis by blast
  qed
  have inv: "store_ok s
    \<and> distinct (map u_id (map_values (users s)))
    \<and> distinct (map m_id (map_values (menuItems s)))
    \<and> distinct (map c_id (map_values (cartItems s)))
    \<and> distinct (map o_id (map_values (orders s)))
    \<and> (\<forall>u\<in>set (map_values (users s)). u_id u < userIdCounter s)
    \<and> (\<forall>m\<in>set (map_values (menuItems s)). m_id m < menuItemIdCounter s)
    \<and> (\<forall>c\<in>set (map_values (cartItems s)). c_id c < cartItemIdCounter s)
    \<and> (\<forall>ord\<in>set (map_values (orders s)). o_id ord < orderIdCounter s)"
    if "reachable s"
  proof -
    from that have ok: "store_ok s" by (rule reachable_store_ok)
    then have "keyed u_id (userIdCounter s) (users s)"
      "keyed m_id (menuItemIdCounter s) (menuItems s)"
      "keyed c_id (cartItemIdCounter s) (cartItems s)"
      "keyed o_id (orderIdCounter s) (orders s)"
      by (simp_all add: store_ok_def)
    from this[THEN keyed_ids] ok show ?thesis by simp
  qed
  from init createUser_counter[of s iu] createMenuItem_counter[of s now im]
    createOrder_counter[of s now io] addToCart_counter[of s ic]
    later_user later_menu later_order later_cart inv
  show ?thesis by blast
qed

theorem ids_from_counters_witness:
  "reachable demo_store
   \<and> map u_id (map_values (users demo_store)) = [1, 2]
   \<and> map c_id (map_values (cartItems demo_store)) = [1, 2, 3]
   \<and> userIdCounter demo_store = 3
   \<and> u_id (fst (createUser demo_store alice_insert)) = 3
   \<and> \<not> has_line demo_store 1 2
   \<and> fst (addToCart demo_store \<lparr> ic_userId = 1, ic_menuItemId = 2, ic_quantity = None \<rparr>)
       = Some (new_line 4 1 2 1)"
proof -
  let ?ic = "\<lparr> ic_userId = 1, ic_menuItemId = 2, ic_quantity = None \<rparr>"
  have r: "reachable demo_store"
    unfolding reachable_def demo_store_def by (rule exI) (rule refl)
  have no: "\<not> has_line demo_store (ic_userId ?ic) (ic_menuItemId ?ic)"
    by (simp add: has_line_def demo_store_eq map_values_def new_line_def)
  have added: "fst (addToCart demo_store ?ic) = Some (new_line 4 1 2 1)"
    by (simp add: addToCart_def demo_store_eq map_values_def new_line_def Let_def or_one_def)
  from ids_from_counters[where s = demo_store and iu = alice_insert and ic = ?ic] r no
  have "u_id (fst (createUser demo_store alice_insert)) = userIdCounter demo_store
      \<and> distinct (map u_id (map_values (users demo_store)))
      \<and> (\<exists>l. fst (addToCart demo_store ?ic) = Some l \<and> c_id l = cartItemIdCounter demo_store)"
    by blast
  with r no added show ?thesis
    by (simp add: demo_store_eq map_values_def admin_def alice_def new_line_def)
qed

section \<open>Reading the orders of a user\<close>

lemma promise_all_map:
  "promise_all (map f xs) =
     (if list_all (\<lambda>x. \<exists>y. f x = Inr y) xs then Inr (map (\<lambda>x. projr (f x)) xs)
      else Inl TypeError)"
proof (induction xs)
  case Nil
  show ?case by simp
next
  case (Cons x xs)
  show ?case
  proof (cases "f x")
    case (Inl e)
    then show ?thesis by (cases e) simp
  next
    case (Inr y)
    with Cons show ?thesis by simp
  qed
qed

lemma item_with_details_eq:
  "item_with_details s item =
     (if item = JNull then Inl TypeError
      else Inr (getMenuItemByJson s (property_of item ''menuItemId''),
                property_of item ''quantity''))"
  by (cases item) (simp_all add: item_with_details_def property_of_def)

lemma order_with_items_eq:
  "order_with_items s order
     = (if order_readable order then Inr (joined s order) else Inl TypeError)"
proof (cases "o_items order")
  case (JArr items)
  have "list_all (\<lambda>x. \<exists>y. item_with_details s x = Inr y) items
      = list_all (\<lambda>item. item \<noteq> JNull) items"
    by (simp add: item_with_details_eq list_all_iff)
  moreover have "list_all (\<lambda>item. item \<noteq> JNull) items \<Longrightarrow>
     map (\<lambda>x. projr (item_with_details s x)) items
     = map (\<lambda>item. (getMenuItemByJson s (property_of item ''menuItemId''),
                     property_of item ''quantity'')) items"
    by (simp add: item_with_details_eq list_all_iff)
  ultimately show ?thesis
    using JArr by (simp add: order_with_items_def order_readable_def joined_def promise_all_map)
qed (simp_all add: order_with_items_def order_readable_def)

lemma getOrdersByUserId_eq:
  "getOrdersByUserId s userId =
     (if list_all order_readable (orders_of s userId)
      then Inr (map (joined s) (orders_of s userId)) else Inl TypeError)"
proof -
  have "list_all (\<lambda>x. \<exists>y. order_with_items s x = Inr y) xs = list_all order_readable xs" for xs
    by (simp add: order_with_items_eq list_all_iff)
  moreover have "list_all order_readable xs \<Longrightarrow>
      map (\<lambda>x. projr (order_with_items s x)) xs = map (joined s) xs" for xs
    by (simp add: order_with_items_eq list_all_iff)
  ultimately show ?thesis
    by (simp add: getOrdersByUserId_def Let_def orders_of_def promise_all_map)
qed

lemma malformed_store_eq:
  "malformed_store = demo_store\<lparr>
      cartItems := [(2, new_line 2 1 1 1)],
      orders := [(1, demo_order),
                 (2, \<lparr> o_id = 2, o_userId = 2, o_items = JNum 5, o_status = ''pending'',
                       o_total = 1, o_createdAt = Some 3000, o_address = None,
                       o_paymentId = None \<rparr>)],
      orderIdCounter := 3 \<rparr>"
  by (simp add: malformed_store_def post_orders_def request_of_def malformed_body_def
        insertOrderSchema_parse_def as_number_def nullable_text_def createOrder_def
        clearCart_def getCartItems_def map_delete_def Let_def or_null_def alice_def
        demo_store_eq split_beta map_values_def new_line_def)

text \<open>
  Claim C8, as stated, fails. Alice posts an order whose \<open>items\<close> are the number 5; the
  schema takes any JSON value for the \<open>jsonb\<close> column, so the order is created (201).
  Her next request for her own orders is authorised, yet \<open>getOrdersByUserId\<close> calls
  \<open>map\<close> on the number, the handler catches the \<open>TypeError\<close> and answers 500, not 200.
\<close>

theorem own_orders_counterexample:
  "fst (fst (post_orders demo_store 3000 (request_of alice malformed_body))) = 201
 \<and> req_isAuthenticated (request_of alice [])
 \<and> req_user (request_of alice []) = Some alice
 \<and> get_orders_by_user malformed_store (request_of alice []) (u_id alice)
     = (500, Message ''Error fetching orders'')"
proof -
  have "fst (fst (post_orders demo_store 3000 (request_of alice malformed_body))) = 201"
    by (simp add: post_orders_def request_of_def malformed_body_def insertOrderSchema_parse_def
          as_number_def nullable_text_def Let_def split_beta)
  moreover have "\<not> list_all order_readable (orders_of malformed_store (u_id alice))"
    by (simp add: malformed_store_eq orders_of_def map_values_def order_readable_def
          demo_order_def demo_items_def alice_def)
  ultimately show ?thesis
    by (simp add: get_orders_by_user_def getOrdersByUserId_eq request_of_def)
qed

text \<open>
  Claim C8, amended. For an authenticated request: a user who is not an admin and asks
  for another user's orders gets 403 and no order; a user asking for their own orders,
  or an admin, gets 200 with that user's orders, each joined with its menu items, when
  the stored \<open>items\<close> of each of these orders are an array without a \<open>null\<close> entry, and
  500 otherwise.
\<close>

theorem orders_of_user_access:
  assumes "req_isAuthenticated req" "req_user req = Some user"
  shows "(userId \<noteq> u_id user \<and> \<not> admin_flag user \<longrightarrow>
            get_orders_by_user s req userId = (403, Message ''Forbidden''))
       \<and> ((userId = u_id user \<or> admin_flag user)
            \<and> list_all order_readable (orders_of s userId) \<longrightarrow>
            get_orders_by_user s req userId
              = (200, OrdersJson (map (joined s) (orders_of s userId))))
       \<and> ((userId = u_id user \<or> admin_flag user)
            \<and> \<not> list_all order_readable (orders_of s userId) \<longrightarrow>
            get_orders_by_user s req userId = (500, Message ''Error fetching orders''))"
  using assms by (auto simp: get_orders_by_user_def getOrdersByUserId_eq)

theorem orders_of_user_access_witness:
  "req_isAuthenticated (request_of alice []) \<and> req_user (request_of alice []) = Some alice
   \<and> req_isAuthenticated (request_of admin []) \<and> req_user (request_of admin []) = Some admin
   \<and> get_orders_by_user demo_store (request_of alice []) 1 = (403, Message ''Forbidden'')
   \<and> get_orders_by_user demo_store (request_of alice []) 2
       = (200, OrdersJson [(demo_order, [(Some pizza, Some (JNum 2))])])
   \<and> get_orders_by_user demo_store (request_of admin []) 2
       = (200, OrdersJson [(demo_order, [(Some pizza, Some (JNum 2))])])"
proof -
  have a: "req_isAuthenticated (request_of alice [])" "req_user (request_of alice []) = Some alice"
    and b: "req_isAuthenticated (request_of admin [])" "req_user (request_of admin []) = Some admin"
    by (simp_all add: request_of_def)
  have f: "\<not> admin_flag alice" "admin_flag admin" "u_id alice = 2"
    by (simp_all add: admin_flag_def alice_def admin_def)
  have o: "orders_of demo_store 2 = [demo_order]"
    by (simp add: orders_of_def demo_store_eq map_values_def demo_order_def)
  have r: "order_readable demo_order"
    by (simp add: order_readable_def demo_order_def demo_items_def)
  have j: "joined demo_store demo_order = (demo_order, [(Some pizza, Some (JNum 2))])"
    by (simp add: joined_def demo_order_def demo_items_def property_of_def getMenuItemByJson_def
          as_int_def getMenuItemById_def map_get_def demo_store_eq)
  from orders_of_user_access[OF a, of 1 demo_store] orders_of_user_access[OF a, of 2 demo_store]
    orders_of_user_access[OF b, of 2 demo_store] a b f o r j
  show ?thesis by simp
qed

section \<open>Rounding to binary64\<close>

lemma round_half_even_error: "\<bar>of_int (round_half_even m) - m\<bar> \<le> 1 / 2"
  unfolding round_half_even_def Let_def by (auto split: if_splits)

lemma round_half_even_nonpos: "m \<le> 0 \<Longrightarrow> round_half_even m \<le> 0"
  unfolding round_half_even_def Let_def by (auto split: if_splits)

lemma round_half_even_nonneg: "0 \<le> m \<Longrightarrow> 0 \<le> round_half_even m"
  unfolding round_half_even_def Let_def by (auto split: if_splits)

lemma ulp_pos: "0 < ulp x"
  by (simp add: ulp_def)

lemma powr2_int: "2 powr real_of_int k = (2::real) powi k"
  by (rule powr_real_of_int') simp_all

lemma floor_log2_iff:
  assumes "0 < x"
  shows "\<lfloor>log 2 x\<rfloor> = k \<longleftrightarrow> 2 powi k \<le> x \<and> x < 2 powi (k + 1)"
  using floor_log_eq_powr_iff[of x 2 k] assms
  unfolding powr2_int by simp

lemma floor_log2_bounds:
  assumes "0 < x"
  shows "2 powi \<lfloor>log 2 x\<rfloor> \<le> x"
  using floor_log2_iff[OF assms, of "\<lfloor>log 2 x\<rfloor>"] by simp

lemma floor_log2_eq:
  assumes "0 < x" "2 powi e \<le> x" "x < 2 powi (e + 1)"
  shows "\<lfloor>log 2 x\<rfloor> = e"
  using floor_log2_iff[OF assms(1), of e] assms(2,3) by simp

text \<open>The spacing, given the binade of the number.\<close>

lemma ulp_eval:
  assumes "2 powi e \<le> \<bar>x\<bar>" "\<bar>x\<bar> < 2 powi (e + 1)"
  shows "ulp x = 2 powi (max e (- 1022) - 52)"
proof -
  have "0 < (2::real) powi e" by simp
  with assms(1) have "0 < \<bar>x\<bar>" by linarith
  from floor_log2_eq[OF this assms] show ?thesis by (simp add: ulp_def)
qed

lemma ulp_le:
  assumes "x \<noteq> 0"
  shows "ulp x \<le> max (\<bar>x\<bar> / 2 ^ 52) (1 / 2 ^ 1074)"
proof -
  define e where "e = \<lfloor>log 2 \<bar>x\<bar>\<rfloor>"
  have u: "ulp x = 2 powi (max e (- 1022) - 52)" by (simp add: ulp_def e_def)
  from assms have "0 < \<bar>x\<bar>" by simp
  from floor_log2_bounds[OF this] have le: "2 powi e \<le> \<bar>x\<bar>" by (simp add: e_def)
  show ?thesis
  proof (cases "- 1022 \<le> e")
    case True
    then have "ulp x = 2 powi (e - 52)" by (simp add: u max_def)
    also have "\<dots> = 2 powi e / 2 powi 52" by (rule power_int_diff) simp
    also have "\<dots> = 2 powi e / 2 ^ 52" by simp
    also have "\<dots> \<le> \<bar>x\<bar> / 2 ^ 52" using le by (simp add: divide_right_mono)
    finally show ?thesis by simp
  next
    case False
    then have "ulp x = 2 powi (- 1074)" by (simp add: u max_def)
    also have "\<dots> = 1 / 2 ^ 1074" by (simp add: power_int_minus field_simps)
    finally show ?thesis by simp
  qed
qed

text \<open>A finite result is within half a spacing of the exact value: a relative error of
  at most \<open>2^-53\<close>, or \<open>2^-1075\<close> in the subnormal range.\<close>

lemma binary64_error:
  assumes "binary64 x = Finite y"
  shows "\<bar>y - x\<bar> \<le> max (\<bar>x\<bar> / 2 ^ 53) (1 / 2 ^ 1075)"
proof (cases "x = 0")
  case True
  with assms show ?thesis by (simp add: binary64_def)
next
  case False
  with assms have y: "y = of_int (round_half_even (x / ulp x)) * ulp x"
    by (simp add: binary64_def Let_def split: if_splits)
  have "y - x = (of_int (round_half_even (x / ulp x)) - x / ulp x) * ulp x"
    using ulp_pos[of x] by (simp add: y left_diff_distrib)
  then have "\<bar>y - x\<bar> = \<bar>of_int (round_half_even (x / ulp x)) - x / ulp x\<bar> * ulp x"
    using ulp_pos[of x] by (simp add: abs_mult)
  also have "\<dots> \<le> 1 / 2 * ulp x"
    using round_half_even_error[of "x / ulp x"] ulp_pos[of x] by (simp add: mult_right_mono)
  also have "\<dots> \<le> 1 / 2 * max (\<bar>x\<bar> / 2 ^ 52) (1 / 2 ^ 1074)"
    using ulp_le[OF False] by simp
  also have "\<dots> = max (\<bar>x\<bar> / 2 ^ 53) (1 / 2 ^ 1075)"
    by (simp add: max_def)
  finally show ?thesis .
qed

lemma binary64_nonpos:
  assumes "x \<le> 0"
  shows "binary64 x \<noteq> PosInfinity" "binary64 x = Finite y \<Longrightarrow> y \<le> 0"
proof -
  have "of_int (round_half_even (x / ulp x)) * ulp x \<le> 0"
    using round_half_even_nonpos[of "x / ulp x"] assms ulp_pos[of x]
    by (simp add: mult_le_0_iff divide_le_0_iff)
  then show "binary64 x \<noteq> PosInfinity" "binary64 x = Finite y \<Longrightarrow> y \<le> 0"
    by (auto simp: binary64_def Let_def split: if_splits)
qed

text \<open>The value, given the binade of the number.\<close>

lemma binary64_eval:
  assumes "2 powi e \<le> \<bar>x\<bar>" "\<bar>x\<bar> < 2 powi (e + 1)"
  shows "binary64 x =
     (let y = of_int (round_half_even (x / 2 powi (max e (- 1022) - 52)))
                * 2 powi (max e (- 1022) - 52)
      in if 2 ^ 1024 \<le> y then PosInfinity
         else if y \<le> - (2 ^ 1024) then NegInfinity
         else Finite y)"
proof -
  have "0 < (2::real) powi e" by simp
  with assms(1) have "0 < \<bar>x\<bar>" by linarith
  then have "x \<noteq> 0" by simp
  then show ?thesis by (simp add: binary64_def ulp_eval[OF assms])
qed

text \<open>Sample roundings: a tie goes to the even significand; the decimal \<open>2.675\<close> is read
  as a number just below it, and the hundredfold of that number rounds up to \<open>267.5\<close>;
  the hundredfold of what \<open>1.005\<close> is read as stays below \<open>100.5\<close>.\<close>

lemma binary64_tie: "binary64 9007199254740993 = Finite 9007199254740992"
  by (subst binary64_eval[where e = 53]) (simp_all add: round_half_even_def Let_def)

lemma binary64_samples:
  "binary64 2.675 = Finite (3011782250804019 / 1125899906842624)"
  "binary64 (3011782250804019 / 1125899906842624 * 100) = Finite 267.5"
  "binary64 1.005 = Finite (1131529406376837 / 1125899906842624)"
  "binary64 (1131529406376837 / 1125899906842624 * 100)
     = Finite (7072058789855231 / 70368744177664)"
  "binary64 0.125 = Finite 0.125"
  "binary64 (0.125 * 100) = Finite 12.5"
  "binary64 39.96 = Finite (5623870034678907 / 140737488355328)"
  "binary64 (5623870034678907 / 140737488355328 * 100) = Finite 3996"
  "binary64 (- 5) = Finite (- 5)"
  by (subst binary64_eval[where e = 1], simp_all add: round_half_even_def Let_def,
      subst binary64_eval[where e = 8], simp_all add: round_half_even_def Let_def,
      subst binary64_eval[where e = 0], simp_all add: round_half_even_def Let_def,
      subst binary64_eval[where e = 6], simp_all add: round_half_even_def Let_def,
      subst binary64_eval[where e = "- 3"], simp_all add: round_half_even_def Let_def,
      subst binary64_eval[where e = 3], simp_all add: round_half_even_def Let_def,
      subst binary64_eval[where e = 5], simp_all add: round_half_even_def Let_def,
      subst binary64_eval[where e = 11], simp_all add: round_half_even_def Let_def,
      subst binary64_eval[where e = 2], simp_all add: round_half_even_def Let_def)

section \<open>Payment\<close>

lemma post_payment_nonpositive:
  assumes "req_isAuthenticated req" "req_user req = Some user"
    and "map_of (req_body req) ''amount'' = Some (JNum r)" "r \<le> 0"
  shows "post_payment create req = Some (400, Message ''Invalid amount'')"
proof (cases "binary64 r")
  case (Finite a)
  with binary64_nonpos(2)[OF assms(4)] have "a \<le> 0" by simp
  with Finite assms(1-3) show ?thesis by (simp add: post_payment_def)
next
  case PosInfinity
  with binary64_nonpos(1)[OF assms(4)] show ?thesis by simp
next
  case NegInfinity
  with assms(1-3) show ?thesis by (simp add: post_payment_def)
qed

text \<open>
  Claim C9. For an authenticated request whose \<open>amount\<close> is a number: when the number is
  at most 0, or is read as a binary64 number that is at most 0, the answer is 400. When
  it is read as a positive number \<open>a\<close> and the binary64 product \<open>p\<close> of \<open>a\<close> and 100 is
  finite, the provider is called with the integer \<open>\<lfloor>p + 1/2\<rfloor>\<close>, the currency and the
  user's id: the answer is 200 with the client secret of the intent that the provider
  returns, and 500 when the provider fails. The number read differs from the number
  written, and the product from the exact product, by a relative error of at most
  \<open>2^-53\<close> (or by \<open>2^-1075\<close>), and the integer sent differs from the product by at most
  a half: it is the amount times 100, rounded.
\<close>

theorem payment_amount_check:
  assumes "req_isAuthenticated req" "req_user req = Some user"
    and "map_of (req_body req) ''amount'' = Some (JNum r)"
  shows "(r \<le> 0 \<longrightarrow> post_payment create req = Some (400, Message ''Invalid amount''))
       \<and> (binary64 r = Finite a \<and> a \<le> 0 \<longrightarrow>
            post_payment create req = Some (400, Message ''Invalid amount''))
       \<and> (binary64 r = Finite a \<and> 0 < a \<and> binary64 (a * 100) = Finite p \<longrightarrow>
            (create \<lparr> pp_amount = \<lfloor>p + 1 / 2\<rfloor>, pp_currency = ''usd'',
                       pp_userId = u_id user \<rparr> = Inr intent \<longrightarrow>
               post_payment create req
                 = Some (200, ClientSecretJson (pi_client_secret intent)))
          \<and> (create \<lparr> pp_amount = \<lfloor>p + 1 / 2\<rfloor>, pp_currency = ''usd'',
                         pp_userId = u_id user \<rparr> = Inl e \<longrightarrow>
               post_payment create req = Some (500, Message ''Error processing payment''))
          \<and> \<bar>a - r\<bar> \<le> max (\<bar>r\<bar> / 2 ^ 53) (1 / 2 ^ 1075)
          \<and> \<bar>p - a * 100\<bar> \<le> max (a * 100 / 2 ^ 53) (1 / 2 ^ 1075)
          \<and> \<bar>of_int \<lfloor>p + 1 / 2\<rfloor> - p\<bar> \<le> 1 / 2
          \<and> \<bar>of_int \<lfloor>p + 1 / 2\<rfloor> - a * 100\<bar>
               \<le> 1 / 2 + max (a * 100 / 2 ^ 53) (1 / 2 ^ 1075))"
proof -
  have nonpos: "post_payment create req = Some (400, Message ''Invalid amount'')" if "r \<le> 0"
    using assms that by (rule post_payment_nonpositive)
  have read_nonpos: "post_payment create req = Some (400, Message ''Invalid amount'')"
    if "binary64 r = Finite a" "a \<le> 0"
    using assms that by (simp add: post_payment_def)
  have sent: "post_payment create req
       = (case create \<lparr> pp_amount = \<lfloor>p + 1 / 2\<rfloor>, pp_currency = ''usd'',
                          pp_userId = u_id user \<rparr> of
            Inl e \<Rightarrow> Some (500, Message ''Error processing payment'')
          | Inr paymentIntent \<Rightarrow>
              Some (200, ClientSecretJson (pi_client_secret paymentIntent)))"
    if "binary64 r = Finite a" "0 < a" "binary64 (a * 100) = Finite p"
    using assms that by (simp add: post_payment_def Math_round_def)
  have near: "\<bar>a - r\<bar> \<le> max (\<bar>r\<bar> / 2 ^ 53) (1 / 2 ^ 1075)
          \<and> \<bar>p - a * 100\<bar> \<le> max (a * 100 / 2 ^ 53) (1 / 2 ^ 1075)
          \<and> \<bar>of_int \<lfloor>p + 1 / 2\<rfloor> - p\<bar> \<le> 1 / 2
          \<and> \<bar>of_int \<lfloor>p + 1 / 2\<rfloor> - a * 100\<bar>
               \<le> 1 / 2 + max (a * 100 / 2 ^ 53) (1 / 2 ^ 1075)"
    if "binary64 r = Finite a" "0 < a" "binary64 (a * 100) = Finite p"
  proof -
    from binary64_error[OF that(1)] have 1: "\<bar>a - r\<bar> \<le> max (\<bar>r\<bar> / 2 ^ 53) (1 / 2 ^ 1075)" .
    from binary64_error[OF that(3)] that(2)
    have 2: "\<bar>p - a * 100\<bar> \<le> max (a * 100 / 2 ^ 53) (1 / 2 ^ 1075)" by simp
    have 3: "\<bar>of_int \<lfloor>p + 1 / 2\<rfloor> - p\<bar> \<le> 1 / 2" by linarith
    define bound where "bound = max (a * 100 / 2 ^ 53) (1 / 2 ^ 1075)"
    from 2 have "\<bar>p - a * 100\<bar> \<le> bound" by (simp only: bound_def)
    with 3 have "\<bar>of_int \<lfloor>p + 1 / 2\<rfloor> - a * 100\<bar> \<le> 1 / 2 + bound" by linarith
    then have 4: "\<bar>of_int \<lfloor>p + 1 / 2\<rfloor> - a * 100\<bar>
               \<le> 1 / 2 + max (a * 100 / 2 ^ 53) (1 / 2 ^ 1075)" by (simp only: bound_def)
    from 1 2 3 4 show ?thesis by blast
  qed
  have ok: "post_payment create req = Some (200, ClientSecretJson (pi_client_secret intent))"
    if "binary64 r = Finite a" "0 < a" "binary64 (a * 100) = Finite p"
      "create \<lparr> pp_amount = \<lfloor>p + 1 / 2\<rfloor>, pp_currency = ''usd'',
                 pp_userId = u_id user \<rparr> = Inr intent"
    using sent[OF that(1-3)] that(4) by simp
  have failed: "post_payment create req = Some (500, Message ''Error processing payment'')"
    if "binary64 r = Finite a" "0 < a" "binary64 (a * 100) = Finite p"
      "create \<lparr> pp_amount = \<lfloor>p + 1 / 2\<rfloor>, pp_currency = ''usd'',
                 pp_userId = u_id user \<rparr> = Inl e"
    using sent[OF that(1-3)] that(4) by simp
  show ?thesis
    using nonpos read_nonpos ok failed near by blast
qed

theorem payment_amount_check_witness:
  "binary64 2.675 = Finite (3011782250804019 / 1125899906842624)
   \<and> binary64 (3011782250804019 / 1125899906842624 * 100) = Finite 267.5
   \<and> \<lfloor>3011782250804019 / 1125899906842624 * 100 + 1 / 2 :: real\<rfloor> = 267
   \<and> post_payment demo_provider (request_of alice [(''amount'', JNum 2.675)])
       = Some (200, ClientSecretJson (Some ''secret_for_268''))
   \<and> post_payment demo_provider (request_of alice [(''amount'', JNum 1.005)])
       = Some (200, ClientSecretJson (Some ''secret_for_100''))
   \<and> post_payment demo_provider (request_of alice [(''amount'', JNum 0.125)])
       = Some (200, ClientSecretJson (Some ''secret_for_13''))
   \<and> post_payment demo_provider (request_of alice [(''amount'', JNum 39.96)])
       = Some (500, Message ''Error processing payment'')
   \<and> post_payment demo_provider (request_of alice [(''amount'', JNum 0)])
       = Some (400, Message ''Invalid amount'')
   \<and> post_payment demo_provider (request_of alice [(''amount'', JNum (- 5))])
       = Some (400, Message ''Invalid amount'')"
proof -
  have a: "req_isAuthenticated (request_of alice body)"
    "req_user (request_of alice body) = Some alice"
    "map_of (req_body (request_of alice [(''amount'', JNum x)])) ''amount'' = Some (JNum x)"
    for body x
    by (simp_all add: request_of_def)
  note s = binary64_samples
  have fl: "\<lfloor>3011782250804019 / 1125899906842624 * 100 + 1 / 2 :: real\<rfloor> = 267"
    by simp
  have p268: "demo_provider \<lparr> pp_amount = \<lfloor>267.5 + 1 / 2 :: real\<rfloor>, pp_currency = ''usd'',
        pp_userId = u_id alice \<rparr> = Inr \<lparr> pi_id = ''pi_3'', pi_client_secret = Some ''secret_for_268'' \<rparr>"
    and p100: "demo_provider \<lparr> pp_amount = \<lfloor>7072058789855231 / 70368744177664 + 1 / 2 :: real\<rfloor>,
        pp_currency = ''usd'', pp_userId = u_id alice \<rparr>
        = Inr \<lparr> pi_id = ''pi_2'', pi_client_secret = Some ''secret_for_100'' \<rparr>"
    and p13: "demo_provider \<lparr> pp_amount = \<lfloor>12.5 + 1 / 2 :: real\<rfloor>, pp_currency = ''usd'',
        pp_userId = u_id alice \<rparr> = Inr \<lparr> pi_id = ''pi_1'', pi_client_secret = Some ''secret_for_13'' \<rparr>"
    and p3996: "demo_provider \<lparr> pp_amount = \<lfloor>3996 + 1 / 2 :: real\<rfloor>, pp_currency = ''usd'',
        pp_userId = u_id alice \<rparr> = Inl TypeError"
    by (simp_all add: demo_provider_def)
  from payment_amount_check[OF a, where create = demo_provider
      and a = "3011782250804019 / 1125899906842624" and p = "267.5"
      and intent = "\<lparr> pi_id = ''pi_3'', pi_client_secret = Some ''secret_for_268'' \<rparr>"]
    s(1,2) p268
  have r1: "post_payment demo_provider (request_of alice [(''amount'', JNum 2.675)])
       = Some (200, ClientSecretJson (Some ''secret_for_268''))"
    by simp
  from payment_amount_check[OF a, where create = demo_provider
      and a = "1131529406376837 / 1125899906842624" and p = "7072058789855231 / 70368744177664"
      and intent = "\<lparr> pi_id = ''pi_2'', pi_client_secret = Some ''secret_for_100'' \<rparr>"]
    s(3,4) p100
  have r2: "post_payment demo_provider (request_of alice [(''amount'', JNum 1.005)])
       = Some (200, ClientSecretJson (Some ''secret_for_100''))"
    by simp
  from payment_amount_check[OF a, where create = demo_provider
      and a = "0.125" and p = "12.5"
      and intent = "\<lparr> pi_id = ''pi_1'', pi_client_secret = Some ''secret_for_13'' \<rparr>"]
    s(5,6) p13
  have r3: "post_payment demo_provider (request_of alice [(''amount'', JNum 0.125)])
       = Some (200, ClientSecretJson (Some ''secret_for_13''))"
    by simp
  from payment_amount_check[OF a, where create = demo_provider
      and a = "5623870034678907 / 140737488355328" and p = "3996" and e = TypeError]
    s(7,8) p3996
  have r4: "post_payment demo_provider (request_of alice [(''amount'', JNum 39.96)])
       = Some (500, Message ''Error processing payment'')"
    by simp
  from payment_amount_check[OF a, where create = demo_provider and r = "0"]
  have r5: "post_payment demo_provider (request_of alice [(''amount'', JNum 0)])
       = Some (400, Message ''Invalid amount'')"
    by simp
  from payment_amount_check[OF a, where create = demo_provider and r = "- 5"]
  have r6: "post_payment demo_provider (request_of alice [(''amount'', JNum (- 5))])
       = Some (400, Message ''Invalid amount'')"
    by simp
  from s(1,2) fl r1 r2 r3 r4 r5 r6 show ?thesis by simp
qed

end
